theory Spec2Isabelle
  imports Complex_Main "HOL-Library.Word"
begin

section \<open>The LeCroy WaveJet 300 driver (ivi/lecroy/lecroyWaveJet300.py)\<close>

text \<open>
  A shallow embedding of the driver class \<^verbatim>\<open>lecroyWaveJet300\<close>: its attribute getters and
  setters with the validity cache, the waveform decoder and the measurement-slot
  allocator. Every method is a function from the driver's state to a result and the new
  state; an exception is the \<open>Inl\<close> of the result, and the state returned with it holds
  what the method had already done when it raised.
\<close>

subsection \<open>Python strings\<close>

text \<open>Characters are bytes; the device protocol is ASCII.\<close>

definition endswith :: "string \<Rightarrow> string \<Rightarrow> bool" where
  "endswith s t = (drop (length s - length t) s = t)"

definition startswith :: "string \<Rightarrow> string \<Rightarrow> bool" where
  "startswith s t = (take (length t) s = t)"

text \<open>\<^verbatim>\<open>s.rstrip(chars)\<close>: every trailing character that is one of \<open>chars\<close> goes.\<close>

definition rstrip :: "string \<Rightarrow> string \<Rightarrow> string" where
  "rstrip chars s = rev (dropWhile (\<lambda>c. c \<in> set chars) (rev s))"

definition is_space :: "char \<Rightarrow> bool" where
  "is_space c = ((of_char c :: nat) \<in> {9, 10, 11, 12, 13, 28, 29, 30, 31, 32})"

text \<open>\<^verbatim>\<open>s.lstrip()\<close>: leading whitespace goes.\<close>

definition lstrip :: "string \<Rightarrow> string" where
  "lstrip s = dropWhile is_space s"

text \<open>\<^verbatim>\<open>s.lower()\<close>, on ASCII.\<close>

definition lower_char :: "char \<Rightarrow> char" where
  "lower_char c =
     (case map_of (zip ''ABCDEFGHIJKLMNOPQRSTUVWXYZ'' ''abcdefghijklmnopqrstuvwxyz'') c of
        None \<Rightarrow> c
      | Some d \<Rightarrow> d)"

definition lower :: "string \<Rightarrow> string" where
  "lower s = map lower_char s"

text \<open>\<^verbatim>\<open>s.split(c)\<close> for a separator of one character: never the empty list.\<close>

primrec split_on :: "char \<Rightarrow> string \<Rightarrow> string list" where
  "split_on c [] = [[]]"
| "split_on c (x # xs) =
     (if x = c then [] # split_on c xs
      else (case split_on c xs of
              [] \<Rightarrow> [[x]]
            | w # ws \<Rightarrow> (x # w) # ws))"

text \<open>\<^verbatim>\<open>s.count(t) > 0\<close>: \<open>t\<close> occurs in \<open>s\<close>.\<close>

definition occurs_in :: "string \<Rightarrow> string \<Rightarrow> bool" where
  "occurs_in t s = list_ex (\<lambda>i. take (length t) (drop i s) = t) [0..<Suc (length s)]"

definition digit_char :: "nat \<Rightarrow> char" where
  "digit_char d = ''0123456789'' ! d"

fun str_nat :: "nat \<Rightarrow> string" where
  "str_nat n = (if n < 10 then [digit_char n] else str_nat (n div 10) @ [digit_char (n mod 10)])"

text \<open>\<^verbatim>\<open>"%d" % n\<close>\<close>

definition str_int :: "int \<Rightarrow> string" where
  "str_int n = (if n < 0 then CHR ''-'' # str_nat (nat (- n)) else str_nat (nat n))"

subsection \<open>Exceptions\<close>

datatype error =
    ValueNotSupportedException
  | OutOfRangeException
  | UnknownPhysicalNameException
  | SelectorRangeException
  | InvalidImpedanceSelection
  | ValueError
  | IndexError
  | KeyError
  | ZeroDivisionError
  | StructError
  | NoSlotSelected

text \<open>
  \<open>InvalidImpedanceSelection\<close> is \<^verbatim>\<open>Exception('Invalid impedance selection')\<close>. \<open>StructError\<close> is
  \<^verbatim>\<open>struct.error\<close>. \<open>NoSlotSelected\<close> stands in the one branch of the model that the code
  cannot reach (a scan of the four slots that selects none, see \<open>scan_slots\<close>).
  The errors a caller's value can raise before anything is sent:
\<close>

definition validation_error :: "error \<Rightarrow> bool" where
  "validation_error e =
     (e = ValueNotSupportedException \<or> e = OutOfRangeException \<or>
      e = UnknownPhysicalNameException \<or> e = SelectorRangeException \<or>
      e = InvalidImpedanceSelection)"

text \<open>\<^verbatim>\<open>xs[k]\<close> for a \<open>k\<close> that is not negative.\<close>

definition item :: "'a list \<Rightarrow> nat \<Rightarrow> error + 'a" where
  "item xs k = (if k < length xs then Inr (xs ! k) else Inl IndexError)"

subsection \<open>The collaborators outside the driver\<close>

text \<open>
  What the driver sends and when it waits, in order: the log of a session.
\<close>

datatype io = Write string | Ask string | ReadBlock | Sleep

text \<open>
  Python's floats and the instrument are not part of the driver. They are a parameter
  \<open>X\<close> of every method that uses them, so a theorem holds for every float arithmetic
  (IEEE doubles among them) and every instrument:
  \<^item> \<open>pyfloat s\<close> is \<^verbatim>\<open>float(s)\<close> and \<open>pyint s\<close> is \<^verbatim>\<open>int(s)\<close>, \<open>None\<close> for a ValueError;
  \<^item> \<open>lit m e\<close> is the float of the literal \<open>m\<close>e\<open>e\<close> (\<open>lit 991 35\<close> is \<^verbatim>\<open>9.91e37\<close>), and the
    float of the integer \<open>m\<close> when \<open>e = 0\<close>;
  \<^item> \<open>fadd\<close>, \<open>fmul\<close>, \<open>fdiv\<close>, \<open>fneg\<close>, \<open>feq\<close>, \<open>flt\<close> are \<^verbatim>\<open>+ * / - == <\<close> on floats,
    \<open>fround x n\<close> is \<^verbatim>\<open>round(x, n)\<close>, \<open>nan\<close> is \<^verbatim>\<open>float('NaN')\<close>, \<open>fmt_5e x\<close> is
    \<^verbatim>\<open>"%.5e" % x\<close>;
  \<^item> \<open>reply l\<close> is the instrument's answer to the query that ends the log \<open>l\<close>, and
    \<open>block l\<close> the payload of the binary block read at the end of \<open>l\<close>.
\<close>

record 'f extern =
  pyfloat :: "string \<Rightarrow> 'f option"
  pyint :: "string \<Rightarrow> int option"
  lit :: "int \<Rightarrow> int \<Rightarrow> 'f"
  fadd :: "'f \<Rightarrow> 'f \<Rightarrow> 'f"
  fmul :: "'f \<Rightarrow> 'f \<Rightarrow> 'f"
  fdiv :: "'f \<Rightarrow> 'f \<Rightarrow> 'f"
  fneg :: "'f \<Rightarrow> 'f"
  feq :: "'f \<Rightarrow> 'f \<Rightarrow> bool"
  flt :: "'f \<Rightarrow> 'f \<Rightarrow> bool"
  fround :: "'f \<Rightarrow> nat \<Rightarrow> 'f"
  nan :: "'f"
  fmt_5e :: "'f \<Rightarrow> string"
  reply :: "io list \<Rightarrow> string"
  block :: "io list \<Rightarrow> 8 word list"

text \<open>A float divided by a Python integer: ZeroDivisionError when it is 0.\<close>

definition fdiv_int :: "'f extern \<Rightarrow> 'f \<Rightarrow> int \<Rightarrow> error + 'f" where
  "fdiv_int X a n = (if n = 0 then Inl ZeroDivisionError else Inr (fdiv X a (lit X n 0)))"

subsection \<open>The module's tables\<close>

definition AcquisitionTypeMapping :: "(string \<times> string) list" where
  "AcquisitionTypeMapping =
     [(''normal'', ''normal''), (''peak_detect'', ''peak''), (''average'', ''average'')]"

definition AcquisitionAverageCount :: "int list" where
  "AcquisitionAverageCount = [2, 4, 8, 16, 32, 64, 128, 256]"

definition VerticalCouplingMapping :: "(string \<times> string) list" where
  "VerticalCouplingMapping = [(''ac'', ''AC1M''), (''dc'', ''DC1M''), (''gnd'', ''GND'')]"

definition VerticalCouplingReverseMapping :: "(string \<times> string) list" where
  "VerticalCouplingReverseMapping =
     [(''AC1M'', ''ac''), (''DC1M'', ''dc''), (''DC50'', ''dc''), (''GND'', ''gnd'')]"

definition TriggerTypeMapping :: "(string \<times> string) list" where
  "TriggerTypeMapping = [(''edge'', ''edge''), (''ac_line'', ''edge'')]"

definition TriggerCouplingMapping :: "(string \<times> string) list" where
  "TriggerCouplingMapping =
     [(''ac'', ''ac''), (''dc'', ''dc''), (''hf_reject'', ''hf''), (''lf_reject'', ''lf'')]"

definition SampleModeMapping :: "(string \<times> string) list" where
  "SampleModeMapping = [(''real_time'', ''off''), (''equivalent_time'', ''on'')]"

definition SlopeMapping :: "(string \<times> string) list" where
  "SlopeMapping = [(''positive'', ''pos''), (''negative'', ''neg'')]"

definition MeasurementFunctionMapping :: "(string \<times> string) list" where
  "MeasurementFunctionMapping =
     [(''rise_time'', ''tr10-90''),
      (''fall_time'', ''tf90-10''),
      (''frequency'', ''freq''),
      (''period'', ''period''),
      (''voltage_rms'', ''vrms''),
      (''voltage_peak_to_peak'', ''p-p''),
      (''voltage_max'', ''max''),
      (''voltage_min'', ''min''),
      (''voltage_high'', ''top''),
      (''voltage_low'', ''base''),
      (''voltage_average'', ''vmean''),
      (''width_negative'', ''-width''),
      (''width_positive'', ''+width''),
      (''duty_cycle_positive'', ''duty''),
      (''amplitude'', ''t-b''),
      (''voltage_cycle_rms'', ''cvrms''),
      (''voltage_cycle_average'', ''cvmean''),
      (''overshoot'', ''+oshot''),
      (''preshoot'', ''-oshot'')]"

definition TimebaseModeMapping :: "(string \<times> string) list" where
  "TimebaseModeMapping =
     [(''main'', ''yt''), (''xy'', ''xy''), (''xytrg'', ''xytrg''), (''roll'', ''yt'')]"

text \<open>\<^verbatim>\<open>[k for k,v in M.items() if v==value][0]\<close>: IndexError when no key maps to the value.\<close>

definition reverse_lookup :: "(string \<times> string) list \<Rightarrow> string \<Rightarrow> error + string" where
  "reverse_lookup m v = item (map fst (filter (\<lambda>kv. snd kv = v) m)) 0"

definition horizontal_divisions :: int where
  "horizontal_divisions = 10"

definition vertical_divisions :: int where
  "vertical_divisions = 8"

subsection \<open>The driver's state\<close>

text \<open>
  A value the driver keeps in a field that holds a boolean at one time and a string at
  another (the bandwidth limit, the automatic probe attenuation).
\<close>

datatype pyval = PyBool bool | PyStr string

text \<open>
  The per-channel lists of the class (\<^verbatim>\<open>_channel_name\<close>, \<^verbatim>\<open>_channel_scale\<close>, ...) are
  built together, one entry per channel, and are only ever written at an index; they
  are one list of records here, so that they have one length.
\<close>

record 'f channel =
  channel_name :: string
  channel_command_name :: string
  channel_enabled :: bool
  channel_input_impedance :: 'f
  channel_input_frequency_max :: 'f
  channel_probe_attenuation :: int
  channel_probe_attenuation_auto :: pyval
  channel_bw_limit :: pyval
  channel_coupling :: string
  channel_offset :: 'f
  channel_range :: 'f
  channel_scale :: 'f

text \<open>The four measurement slots of \<^verbatim>\<open>_measurement_slots\<close>, in the order \<^verbatim>\<open>__init__\<close> inserts them.\<close>

datatype slot = SlotA | SlotB | SlotC | SlotD

definition slot_name :: "slot \<Rightarrow> string" where
  "slot_name k = (case k of SlotA \<Rightarrow> ''A'' | SlotB \<Rightarrow> ''B'' | SlotC \<Rightarrow> ''C'' | SlotD \<Rightarrow> ''D'')"

type_synonym assignment = "string \<times> string"

record 'f driver =
  driver_operation_simulate :: bool
  cache_valid :: "string \<times> nat option \<Rightarrow> bool"
  channel_count :: nat
  channels :: "'f channel list"
  timebase_mode :: string
  timebase_position :: 'f
  timebase_range :: 'f
  timebase_scale :: 'f
  display_vectors :: bool
  acquisition_type :: string
  acquisition_number_of_averages :: int
  acquisition_sample_mode :: string
  trigger_coupling :: string
  trigger_holdoff :: 'f
  trigger_level :: 'f
  trigger_edge_slope :: string
  trigger_source :: string
  trigger_type :: string
  trigger_continuous :: bool
  measurement_slots :: "slot \<Rightarrow> assignment option"
  io_log :: "io list"

text \<open>
  Modelled from the spec: the validity cache of the base class \<^verbatim>\<open>ivi.Driver\<close>
  (\<^verbatim>\<open>_get_cache_valid\<close>, \<^verbatim>\<open>_set_cache_valid\<close>), which is not among the sources. An entry is
  named by the attribute (the method's name without \<^verbatim>\<open>_get_\<close> or \<^verbatim>\<open>_set_\<close> when the call
  gives no tag) and, for a channel attribute, the channel's index; it only holds a flag,
  no I/O.
\<close>

definition get_cache_valid :: "string \<Rightarrow> nat option \<Rightarrow> 'f driver \<Rightarrow> bool" where
  "get_cache_valid tag index s = cache_valid s (tag, index)"

definition set_cache_valid :: "bool \<Rightarrow> string \<Rightarrow> nat option \<Rightarrow> 'f driver \<Rightarrow> 'f driver" where
  "set_cache_valid valid tag index s = s\<lparr>cache_valid := (cache_valid s)((tag, index) := valid)\<rparr>"

text \<open>
  Modelled from the spec: \<^verbatim>\<open>ivi.get_index\<close>, which is not among the sources. A channel is
  its 0-based index, and the index is checked against the list on every access.
\<close>

definition get_index :: "'a list \<Rightarrow> int \<Rightarrow> error + nat" where
  "get_index l i = (if 0 \<le> i \<and> i < int (length l) then Inr (nat i) else Inl SelectorRangeException)"

text \<open>The transport (\<open>do_write\<close> is \<^verbatim>\<open>_write\<close>, \<open>do_ask\<close> is \<^verbatim>\<open>_ask\<close>), and \<^verbatim>\<open>time.sleep\<close>.\<close>

definition do_write :: "string \<Rightarrow> 'f driver \<Rightarrow> 'f driver" where
  "do_write cmd s = s\<lparr>io_log := io_log s @ [Write cmd]\<rparr>"

definition do_ask :: "'f extern \<Rightarrow> string \<Rightarrow> 'f driver \<Rightarrow> string \<times> 'f driver" where
  "do_ask X cmd s = (reply X (io_log s @ [Ask cmd]), s\<lparr>io_log := io_log s @ [Ask cmd]\<rparr>)"

definition read_ieee_block :: "'f extern \<Rightarrow> 'f driver \<Rightarrow> 8 word list \<times> 'f driver" where
  "read_ieee_block X s = (block X (io_log s @ [ReadBlock]), s\<lparr>io_log := io_log s @ [ReadBlock]\<rparr>)"

definition sleep :: "'f driver \<Rightarrow> 'f driver" where
  "sleep s = s\<lparr>io_log := io_log s @ [Sleep]\<rparr>"

definition bool_to_onoff :: "bool \<Rightarrow> string" where
  "bool_to_onoff v = (if v then ''on'' else ''off'')"

text \<open>\<^verbatim>\<open>self._channel_xxx[index] = v\<close>\<close>

definition upd_channel :: "nat \<Rightarrow> ('f channel \<Rightarrow> 'f channel) \<Rightarrow> 'f driver \<Rightarrow> 'f driver" where
  "upd_channel i f s = s\<lparr>channels := (channels s)[i := f (channels s ! i)]\<rparr>"

definition chan :: "'f driver \<Rightarrow> nat \<Rightarrow> 'f channel" where
  "chan s i = channels s ! i"

subsection \<open>The timebase\<close>

definition get_timebase_mode :: "'f extern \<Rightarrow> 'f driver \<Rightarrow> (error + string) \<times> 'f driver" where
  "get_timebase_mode X s =
     (if \<not> driver_operation_simulate s \<and> \<not> get_cache_valid ''timebase_mode'' None s then
        (let (r, s1) = do_ask X ''ROLL?'' s in
         if lower r = ''on'' then
           (let s2 = set_cache_valid True ''timebase_mode'' None (s1\<lparr>timebase_mode := ''roll''\<rparr>)
            in (Inr (timebase_mode s2), s2))
         else
           (let (r2, s2) = do_ask X ''XYDS?'' s1 in
            case item (map fst (filter (\<lambda>kv. snd kv = lower r2 \<and> fst kv \<noteq> ''roll'')
                                  TimebaseModeMapping)) 0 of
              Inl e \<Rightarrow> (Inl e, s2)
            | Inr k \<Rightarrow>
                (let s3 = set_cache_valid True ''timebase_mode'' None (s2\<lparr>timebase_mode := k\<rparr>)
                 in (Inr (timebase_mode s3), s3))))
      else (Inr (timebase_mode s), s))"

definition set_timebase_mode :: "'f extern \<Rightarrow> string \<Rightarrow> 'f driver \<Rightarrow> (error + unit) \<times> 'f driver" where
  "set_timebase_mode X v s =
     (case map_of TimebaseModeMapping v of
        None \<Rightarrow> (Inl ValueNotSupportedException, s)
      | Some m \<Rightarrow>
          (let s1 = (if \<not> driver_operation_simulate s then
                       (let s' = do_write (''XYDS '' @ m) s
                        in if v = ''roll'' then do_write ''ROLL ON'' s' else s')
                     else s)
           in (Inr (), set_cache_valid True ''timebase_mode'' None (s1\<lparr>timebase_mode := v\<rparr>))))"

definition get_timebase_position :: "'f extern \<Rightarrow> 'f driver \<Rightarrow> (error + 'f) \<times> 'f driver" where
  "get_timebase_position X s =
     (if \<not> driver_operation_simulate s \<and> \<not> get_cache_valid ''timebase_position'' None s then
        (let (r, s1) = do_ask X ''TRDL?'' s in
         case pyfloat X r of
           None \<Rightarrow> (Inl ValueError, s1)
         | Some v \<Rightarrow>
             (let s2 = set_cache_valid True ''timebase_position'' None (s1\<lparr>timebase_position := v\<rparr>)
              in (Inr (timebase_position s2), s2)))
      else (Inr (timebase_position s), s))"

definition set_timebase_position :: "'f extern \<Rightarrow> 'f \<Rightarrow> 'f driver \<Rightarrow> (error + unit) \<times> 'f driver" where
  "set_timebase_position X v s =
     (let s1 = (if \<not> driver_operation_simulate s then do_write (''TRDL '' @ fmt_5e X v) s else s)
      in (Inr (), set_cache_valid True ''timebase_position'' None (s1\<lparr>timebase_position := v\<rparr>)))"

definition get_timebase_scale :: "'f extern \<Rightarrow> 'f driver \<Rightarrow> (error + 'f) \<times> 'f driver" where
  "get_timebase_scale X s =
     (if \<not> driver_operation_simulate s \<and> \<not> get_cache_valid ''timebase_scale'' None s then
        (let (r, s1) = do_ask X ''TDIV?'' s in
         case pyfloat X r of
           None \<Rightarrow> (Inl ValueError, s1)
         | Some v \<Rightarrow>
             (let s2 = s1\<lparr>timebase_scale := v\<rparr>;
                  s3 = s2\<lparr>timebase_range :=
                          fround X (fmul X (timebase_scale s2) (lit X horizontal_divisions 0)) 6\<rparr>;
                  s4 = set_cache_valid True ''timebase_scale'' None s3;
                  s5 = set_cache_valid True ''timebase_range'' None s4
              in (Inr (timebase_scale s5), s5)))
      else (Inr (timebase_scale s), s))"

definition set_timebase_scale :: "'f extern \<Rightarrow> 'f \<Rightarrow> 'f driver \<Rightarrow> (error + unit) \<times> 'f driver" where
  "set_timebase_scale X v s =
     (let s1 = (if \<not> driver_operation_simulate s then do_write (''TDIV '' @ fmt_5e X v) s else s);
          s2 = set_cache_valid False ''timebase_scale'' None s1;
          s3 = set_cache_valid False ''timebase_range'' None s2
      in (Inr (), s3))"

definition get_timebase_range :: "'f extern \<Rightarrow> 'f driver \<Rightarrow> (error + 'f) \<times> 'f driver" where
  "get_timebase_range X s =
     (case get_timebase_scale X s of
        (Inl e, s1) \<Rightarrow> (Inl e, s1)
      | (Inr _, s1) \<Rightarrow> (Inr (timebase_range s1), s1))"

definition set_timebase_range :: "'f extern \<Rightarrow> 'f \<Rightarrow> 'f driver \<Rightarrow> (error + unit) \<times> 'f driver" where
  "set_timebase_range X v s = set_timebase_scale X (fdiv X v (lit X horizontal_divisions 0)) s"

subsection \<open>Display and acquisition\<close>

definition get_display_vectors :: "'f extern \<Rightarrow> 'f driver \<Rightarrow> (error + bool) \<times> 'f driver" where
  "get_display_vectors X s =
     (if \<not> driver_operation_simulate s \<and> \<not> get_cache_valid ''display_vectors'' None s then
        (let (r, s1) = do_ask X ''VECT?'' s;
             s2 = set_cache_valid True ''display_vectors'' None (s1\<lparr>display_vectors := (lower r = ''on'')\<rparr>)
         in (Inr (display_vectors s2), s2))
      else (Inr (display_vectors s), s))"

definition set_display_vectors :: "'f extern \<Rightarrow> bool \<Rightarrow> 'f driver \<Rightarrow> (error + unit) \<times> 'f driver" where
  "set_display_vectors X v s =
     (let s1 = (if \<not> driver_operation_simulate s then do_write (''VECT '' @ bool_to_onoff v) s else s)
      in (Inr (), set_cache_valid True ''display_vectors'' None (s1\<lparr>display_vectors := v\<rparr>)))"

definition get_acquisition_type :: "'f extern \<Rightarrow> 'f driver \<Rightarrow> (error + string) \<times> 'f driver" where
  "get_acquisition_type X s =
     (if \<not> driver_operation_simulate s \<and> \<not> get_cache_valid ''acquisition_type'' None s then
        (let (r, s1) = do_ask X ''ACQ?'' s in
         case reverse_lookup AcquisitionTypeMapping (lower r) of
           Inl e \<Rightarrow> (Inl e, s1)
         | Inr k \<Rightarrow>
             (let s2 = set_cache_valid True ''acquisition_type'' None (s1\<lparr>acquisition_type := k\<rparr>)
              in (Inr (acquisition_type s2), s2)))
      else (Inr (acquisition_type s), s))"

definition set_acquisition_type :: "'f extern \<Rightarrow> string \<Rightarrow> 'f driver \<Rightarrow> (error + unit) \<times> 'f driver" where
  "set_acquisition_type X v s =
     (case map_of AcquisitionTypeMapping v of
        None \<Rightarrow> (Inl ValueNotSupportedException, s)
      | Some m \<Rightarrow>
          (let s1 = (if \<not> driver_operation_simulate s then do_write (''ACQ '' @ m) s else s)
           in (Inr (), set_cache_valid True ''acquisition_type'' None (s1\<lparr>acquisition_type := v\<rparr>))))"

definition get_acquisition_number_of_averages ::
    "'f extern \<Rightarrow> 'f driver \<Rightarrow> (error + int) \<times> 'f driver" where
  "get_acquisition_number_of_averages X s =
     (if \<not> driver_operation_simulate s \<and>
         \<not> get_cache_valid ''acquisition_number_of_averages'' None s then
        (let (r, s1) = do_ask X ''AVGCNT?'' s in
         case pyint X r of
           None \<Rightarrow> (Inl ValueError, s1)
         | Some n \<Rightarrow>
             (let s2 = set_cache_valid True ''acquisition_number_of_averages'' None
                         (s1\<lparr>acquisition_number_of_averages := n\<rparr>)
              in (Inr (acquisition_number_of_averages s2), s2)))
      else (Inr (acquisition_number_of_averages s), s))"

definition set_acquisition_number_of_averages ::
    "'f extern \<Rightarrow> int \<Rightarrow> 'f driver \<Rightarrow> (error + unit) \<times> 'f driver" where
  "set_acquisition_number_of_averages X v s =
     (if v \<notin> set AcquisitionAverageCount then (Inl OutOfRangeException, s)
      else
        (let s1 = (if \<not> driver_operation_simulate s then do_write (''AVGCNT '' @ str_int v) s else s)
         in (Inr (), set_cache_valid True ''acquisition_number_of_averages'' None
                       (s1\<lparr>acquisition_number_of_averages := v\<rparr>))))"

definition get_acquisition_sample_mode ::
    "'f extern \<Rightarrow> 'f driver \<Rightarrow> (error + string) \<times> 'f driver" where
  "get_acquisition_sample_mode X s =
     (if \<not> driver_operation_simulate s \<and> \<not> get_cache_valid ''acquisition_sample_mode'' None s then
        (let (r, s1) = do_ask X ''EQU?'' s in
         case reverse_lookup SampleModeMapping (lower r) of
           Inl e \<Rightarrow> (Inl e, s1)
         | Inr k \<Rightarrow>
             (let s2 = set_cache_valid True ''acquisition_sample_mode'' None
                         (s1\<lparr>acquisition_sample_mode := k\<rparr>)
              in (Inr (acquisition_sample_mode s2), s2)))
      else (Inr (acquisition_sample_mode s), s))"

definition set_acquisition_sample_mode ::
    "'f extern \<Rightarrow> string \<Rightarrow> 'f driver \<Rightarrow> (error + unit) \<times> 'f driver" where
  "set_acquisition_sample_mode X v s =
     (case map_of SampleModeMapping v of
        None \<Rightarrow> (Inl ValueNotSupportedException, s)
      | Some m \<Rightarrow>
          (let s1 = (if \<not> driver_operation_simulate s then do_write (''EQU '' @ m) s else s)
           in (Inr (), set_cache_valid True ''acquisition_sample_mode'' None
                         (s1\<lparr>acquisition_sample_mode := v\<rparr>))))"

subsection \<open>The channels\<close>

definition get_channel_enabled :: "'f extern \<Rightarrow> int \<Rightarrow> 'f driver \<Rightarrow> (error + bool) \<times> 'f driver" where
  "get_channel_enabled X index s =
     (case get_index (map channel_name (channels s)) index of
        Inl e \<Rightarrow> (Inl e, s)
      | Inr i \<Rightarrow>
          if \<not> driver_operation_simulate s \<and> \<not> get_cache_valid ''channel_enabled'' (Some i) s then
            (let (r, s1) = do_ask X (channel_command_name (chan s i) @ '':TRA?'') s;
                 s2 = upd_channel i (\<lambda>c. c\<lparr>channel_enabled := (lower r = ''on'')\<rparr>) s1;
                 s3 = set_cache_valid True ''channel_enabled'' (Some i) s2
             in (Inr (channel_enabled (chan s3 i)), s3))
          else (Inr (channel_enabled (chan s i)), s))"

text \<open>The setter looks the index up in \<^verbatim>\<open>_channel_command_name\<close>, as the source does.\<close>

definition set_channel_enabled ::
    "'f extern \<Rightarrow> int \<Rightarrow> bool \<Rightarrow> 'f driver \<Rightarrow> (error + unit) \<times> 'f driver" where
  "set_channel_enabled X index v s =
     (case get_index (map channel_command_name (channels s)) index of
        Inl e \<Rightarrow> (Inl e, s)
      | Inr i \<Rightarrow>
          (let s1 = (if \<not> driver_operation_simulate s then
                       do_write (channel_command_name (chan s i) @ '':TRA '' @ bool_to_onoff v) s
                     else s);
               s2 = upd_channel i (\<lambda>c. c\<lparr>channel_enabled := v\<rparr>) s1
           in (Inr (), set_cache_valid True ''channel_enabled'' (Some i) s2)))"

text \<open>
  The getter stores the integers 50 and 1000000, the setter the caller's float; both
  are floats here (\<open>lit 50 0\<close> is the float of 50).
\<close>

definition get_channel_input_impedance ::
    "'f extern \<Rightarrow> int \<Rightarrow> 'f driver \<Rightarrow> (error + 'f) \<times> 'f driver" where
  "get_channel_input_impedance X index s =
     (case get_index (map channel_name (channels s)) index of
        Inl e \<Rightarrow> (Inl e, s)
      | Inr i \<Rightarrow>
          if \<not> driver_operation_simulate s \<and>
             \<not> get_cache_valid ''channel_input_impedance'' (Some i) s then
            (let (r, s1) = do_ask X (channel_command_name (chan s i) @ '':CPL?'') s;
                 s2 = (if occurs_in ''50'' r then
                         upd_channel i (\<lambda>c. c\<lparr>channel_input_impedance := lit X 50 0\<rparr>) s1
                       else
                         upd_channel i (\<lambda>c. c\<lparr>channel_input_impedance := lit X 1000000 0\<rparr>) s1);
                 s3 = set_cache_valid True ''channel_input_impedance'' (Some i) s2
             in (Inr (channel_input_impedance (chan s3 i)), s3))
          else (Inr (channel_input_impedance (chan s i)), s))"

definition set_channel_input_impedance ::
    "'f extern \<Rightarrow> int \<Rightarrow> 'f \<Rightarrow> 'f driver \<Rightarrow> (error + unit) \<times> 'f driver" where
  "set_channel_input_impedance X index v s =
     (case get_index (map channel_name (channels s)) index of
        Inl e \<Rightarrow> (Inl e, s)
      | Inr i \<Rightarrow>
          if \<not> (feq X v (lit X 1000000 0) \<or>
                (feq X v (lit X 50 0) \<and> channel_coupling (chan s i) = ''dc'')) then
            (Inl InvalidImpedanceSelection, s)
          else
            (let s1 = (if \<not> driver_operation_simulate s then
                         (if channel_coupling (chan s i) = ''dc'' then
                            (if feq X v (lit X 1000000 0) then
                               do_write (channel_command_name (chan s i) @ '':CPL DC1M'') s
                             else if feq X v (lit X 50 0) then
                               do_write (channel_command_name (chan s i) @ '':CPL DC50'') s
                             else s)
                          else s)
                       else s);
                 s2 = upd_channel i (\<lambda>c. c\<lparr>channel_input_impedance := v\<rparr>) s1
             in (Inr (), set_cache_valid True ''channel_input_impedance'' (Some i) s2)))"

definition get_channel_probe_attenuation ::
    "'f extern \<Rightarrow> int \<Rightarrow> 'f driver \<Rightarrow> (error + int) \<times> 'f driver" where
  "get_channel_probe_attenuation X index s =
     (case get_index (map channel_name (channels s)) index of
        Inl e \<Rightarrow> (Inl e, s)
      | Inr i \<Rightarrow>
          if \<not> driver_operation_simulate s \<and>
             \<not> get_cache_valid ''channel_probe_attenuation'' (Some i) s then
            (let (r, s1) = do_ask X (channel_command_name (chan s i) @ '':PROBE?'') s in
             case item (split_on CHR '','' r) 1 of
               Inl e \<Rightarrow> (Inl e, s1)
             | Inr f \<Rightarrow>
                 (case pyint X f of
                    None \<Rightarrow> (Inl ValueError, s1)
                  | Some n \<Rightarrow>
                      (let s2 = upd_channel i (\<lambda>c. c\<lparr>channel_probe_attenuation := n\<rparr>) s1;
                           s3 = set_cache_valid True ''channel_probe_attenuation'' (Some i) s2
                       in (Inr (channel_probe_attenuation (chan s3 i)), s3))))
          else (Inr (channel_probe_attenuation (chan s i)), s))"

definition set_channel_probe_attenuation ::
    "'f extern \<Rightarrow> int \<Rightarrow> int \<Rightarrow> 'f driver \<Rightarrow> (error + unit) \<times> 'f driver" where
  "set_channel_probe_attenuation X index v s =
     (case get_index (map channel_name (channels s)) index of
        Inl e \<Rightarrow> (Inl e, s)
      | Inr i \<Rightarrow>
          (let s1 = (if \<not> driver_operation_simulate s then
                       do_write (channel_command_name (chan s i) @ '':PROBE manual,'' @ str_int v) s
                     else s);
               s2 = upd_channel i (\<lambda>c. c\<lparr>channel_probe_attenuation := v\<rparr>) s1;
               s3 = set_cache_valid False ''channel_probe_attenuation_auto'' (Some i) s2
           in (Inr (), set_cache_valid True ''channel_probe_attenuation'' (Some i) s3)))"

definition get_channel_probe_attenuation_auto ::
    "'f extern \<Rightarrow> int \<Rightarrow> 'f driver \<Rightarrow> (error + pyval) \<times> 'f driver" where
  "get_channel_probe_attenuation_auto X index s =
     (case get_index (map channel_name (channels s)) index of
        Inl e \<Rightarrow> (Inl e, s)
      | Inr i \<Rightarrow>
          if \<not> driver_operation_simulate s \<and>
             \<not> get_cache_valid ''channel_probe_attenuation_auto'' (Some i) s then
            (let (r, s1) = do_ask X (channel_command_name (chan s i) @ '':PROBE?'') s in
             case item (split_on CHR '','' r) 0 of
               Inl e \<Rightarrow> (Inl e, s1)
             | Inr f \<Rightarrow>
                 (let s2 = upd_channel i
                             (\<lambda>c. c\<lparr>channel_probe_attenuation_auto := PyBool (lower f = ''auto'')\<rparr>) s1;
                      s3 = set_cache_valid True ''channel_probe_attenuation_auto'' (Some i) s2
                  in (Inr (channel_probe_attenuation_auto (chan s3 i)), s3)))
          else (Inr (channel_probe_attenuation_auto (chan s i)), s))"

text \<open>
  The setter turns the flag into the word it sends, \<^verbatim>\<open>'auto'\<close> or \<^verbatim>\<open>'manual'\<close>, and it is
  that word it stores.
\<close>

definition set_channel_probe_attenuation_auto ::
    "'f extern \<Rightarrow> int \<Rightarrow> bool \<Rightarrow> 'f driver \<Rightarrow> (error + unit) \<times> 'f driver" where
  "set_channel_probe_attenuation_auto X index v s =
     (case get_index (map channel_name (channels s)) index of
        Inl e \<Rightarrow> (Inl e, s)
      | Inr i \<Rightarrow>
          (let w = (if v then ''auto'' else ''manual'');
               s1 = (if \<not> driver_operation_simulate s then
                       do_write (channel_command_name (chan s i) @ '':PROBE '' @ w @ '',1'') s
                     else s);
               s2 = upd_channel i (\<lambda>c. c\<lparr>channel_probe_attenuation_auto := PyStr w\<rparr>) s1;
               s3 = set_cache_valid False ''channel_probe_attenuation'' (Some i) s2
           in (Inr (), set_cache_valid True ''channel_probe_attenuation_auto'' (Some i) s3)))"

definition get_channel_bw_limit ::
    "'f extern \<Rightarrow> int \<Rightarrow> 'f driver \<Rightarrow> (error + pyval) \<times> 'f driver" where
  "get_channel_bw_limit X index s =
     (case get_index (map channel_name (channels s)) index of
        Inl e \<Rightarrow> (Inl e, s)
      | Inr i \<Rightarrow>
          if \<not> driver_operation_simulate s \<and> \<not> get_cache_valid ''channel_bw_limit'' (Some i) s then
            (let (r, s1) = do_ask X (channel_command_name (chan s i) @ '':BWL?'') s;
                 v = (if lower r = ''full'' then PyBool False else PyStr (lower r));
                 s2 = upd_channel i (\<lambda>c. c\<lparr>channel_bw_limit := v\<rparr>) s1;
                 s3 = set_cache_valid True ''channel_bw_limit'' (Some i) s2
             in (Inr (channel_bw_limit (chan s3 i)), s3))
          else (Inr (channel_bw_limit (chan s i)), s))"

definition set_channel_bw_limit ::
    "'f extern \<Rightarrow> int \<Rightarrow> pyval \<Rightarrow> 'f driver \<Rightarrow> (error + unit) \<times> 'f driver" where
  "set_channel_bw_limit X index v s =
     (case get_index (map channel_name (channels s)) index of
        Inl e \<Rightarrow> (Inl e, s)
      | Inr i \<Rightarrow>
          (let w = (case v of PyBool b \<Rightarrow> (if b then ''20m'' else ''full'') | PyStr t \<Rightarrow> t) in
           if lower w \<notin> set [''full'', ''20m'', ''100m''] then (Inl ValueNotSupportedException, s)
           else
             (let s1 = (if \<not> driver_operation_simulate s then
                          do_write (channel_command_name (chan s i) @ '':BWL '' @ w) s
                        else s);
                  s2 = upd_channel i (\<lambda>c. c\<lparr>channel_bw_limit := PyStr w\<rparr>) s1
              in (Inr (), set_cache_valid True ''channel_bw_limit'' (Some i) s2))))"

definition get_channel_input_frequency_max ::
    "'f extern \<Rightarrow> int \<Rightarrow> 'f driver \<Rightarrow> (error + 'f) \<times> 'f driver" where
  "get_channel_input_frequency_max X index s =
     (case get_index (map channel_name (channels s)) index of
        Inl e \<Rightarrow> (Inl e, s)
      | Inr i \<Rightarrow> (Inr (channel_input_frequency_max (chan s i)), s))"

definition set_channel_input_frequency_max ::
    "'f extern \<Rightarrow> int \<Rightarrow> 'f \<Rightarrow> 'f driver \<Rightarrow> (error + unit) \<times> 'f driver" where
  "set_channel_input_frequency_max X index v s =
     (case get_index (map channel_name (channels s)) index of
        Inl e \<Rightarrow> (Inl e, s)
      | Inr i \<Rightarrow>
          (case (if \<not> driver_operation_simulate s then
                   set_channel_bw_limit X (int i) (PyBool (flt X v (lit X 20 6))) s
                 else (Inr (), s)) of
             (Inl e, s1) \<Rightarrow> (Inl e, s1)
           | (Inr _, s1) \<Rightarrow>
               (let s2 = upd_channel i (\<lambda>c. c\<lparr>channel_input_frequency_max := v\<rparr>) s1
                in (Inr (), set_cache_valid True ''channel_input_frequency_max'' (Some i) s2))))"

definition get_channel_coupling ::
    "'f extern \<Rightarrow> int \<Rightarrow> 'f driver \<Rightarrow> (error + string) \<times> 'f driver" where
  "get_channel_coupling X index s =
     (case get_index (map channel_name (channels s)) index of
        Inl e \<Rightarrow> (Inl e, s)
      | Inr i \<Rightarrow>
          if \<not> driver_operation_simulate s \<and> \<not> get_cache_valid ''channel_coupling'' (Some i) s then
            (let (r, s1) = do_ask X (channel_command_name (chan s i) @ '':CPL?'') s in
             case map_of VerticalCouplingReverseMapping r of
               None \<Rightarrow> (Inl KeyError, s1)
             | Some k \<Rightarrow>
                 (let s2 = upd_channel i (\<lambda>c. c\<lparr>channel_coupling := k\<rparr>) s1;
                      s3 = set_cache_valid True ''channel_coupling'' (Some i) s2
                  in (Inr (channel_coupling (chan s3 i)), s3)))
          else (Inr (channel_coupling (chan s i)), s))"

definition set_channel_coupling ::
    "'f extern \<Rightarrow> int \<Rightarrow> string \<Rightarrow> 'f driver \<Rightarrow> (error + unit) \<times> 'f driver" where
  "set_channel_coupling X index v s =
     (case get_index (map channel_name (channels s)) index of
        Inl e \<Rightarrow> (Inl e, s)
      | Inr i \<Rightarrow>
          (case map_of VerticalCouplingMapping v of
             None \<Rightarrow> (Inl ValueNotSupportedException, s)
           | Some m \<Rightarrow>
               (let s1 = (if \<not> driver_operation_simulate s then
                            do_write (channel_command_name (chan s i) @ '':CPL '' @ m) s
                          else s);
                    s2 = upd_channel i (\<lambda>c. c\<lparr>channel_coupling := v\<rparr>) s1;
                    s3 = set_cache_valid False ''channel_input_impedance'' (Some i) s2
                in (Inr (), set_cache_valid True ''channel_coupling'' (Some i) s3))))"

definition get_channel_offset ::
    "'f extern \<Rightarrow> int \<Rightarrow> 'f driver \<Rightarrow> (error + 'f) \<times> 'f driver" where
  "get_channel_offset X index s =
     (case get_index (map channel_name (channels s)) index of
        Inl e \<Rightarrow> (Inl e, s)
      | Inr i \<Rightarrow>
          if \<not> driver_operation_simulate s \<and> \<not> get_cache_valid ''channel_offset'' (Some i) s then
            (let (r, s1) = do_ask X (channel_command_name (chan s i) @ '':OFST?'') s in
             case pyfloat X r of
               None \<Rightarrow> (Inl ValueError, s1)
             | Some v \<Rightarrow>
                 (let s2 = upd_channel i (\<lambda>c. c\<lparr>channel_offset := v\<rparr>) s1;
                      s3 = set_cache_valid True ''channel_offset'' (Some i) s2
                  in (Inr (channel_offset (chan s3 i)), s3)))
          else (Inr (channel_offset (chan s i)), s))"

definition set_channel_offset ::
    "'f extern \<Rightarrow> int \<Rightarrow> 'f \<Rightarrow> 'f driver \<Rightarrow> (error + unit) \<times> 'f driver" where
  "set_channel_offset X index v s =
     (case get_index (map channel_name (channels s)) index of
        Inl e \<Rightarrow> (Inl e, s)
      | Inr i \<Rightarrow>
          (let s1 = (if \<not> driver_operation_simulate s then
                       do_write (channel_command_name (chan s i) @ '':OFST '' @ fmt_5e X v) s
                     else s);
               s2 = upd_channel i (\<lambda>c. c\<lparr>channel_offset := v\<rparr>) s1
           in (Inr (), set_cache_valid True ''channel_offset'' (Some i) s2)))"

definition get_channel_scale ::
    "'f extern \<Rightarrow> int \<Rightarrow> 'f driver \<Rightarrow> (error + 'f) \<times> 'f driver" where
  "get_channel_scale X index s =
     (case get_index (map channel_name (channels s)) index of
        Inl e \<Rightarrow> (Inl e, s)
      | Inr i \<Rightarrow>
          if \<not> driver_operation_simulate s \<and> \<not> get_cache_valid ''channel_scale'' (Some i) s then
            (let (r, s1) = do_ask X (channel_command_name (chan s i) @ '':VDIV?'') s in
             case pyfloat X r of
               None \<Rightarrow> (Inl ValueError, s1)
             | Some v \<Rightarrow>
                 (let s2 = upd_channel i (\<lambda>c. c\<lparr>channel_scale := v\<rparr>) s1;
                      s3 = upd_channel i
                             (\<lambda>c. c\<lparr>channel_range :=
                                      fmul X (channel_scale (chan s2 i)) (lit X vertical_divisions 0)\<rparr>) s2;
                      s4 = set_cache_valid True ''channel_scale'' (Some i) s3;
                      s5 = set_cache_valid True ''channel_range'' (Some i) s4
                  in (Inr (channel_scale (chan s5 i)), s5)))
          else (Inr (channel_scale (chan s i)), s))"

definition set_channel_scale ::
    "'f extern \<Rightarrow> int \<Rightarrow> 'f \<Rightarrow> 'f driver \<Rightarrow> (error + unit) \<times> 'f driver" where
  "set_channel_scale X index v s =
     (case get_index (map channel_name (channels s)) index of
        Inl e \<Rightarrow> (Inl e, s)
      | Inr i \<Rightarrow>
          (let s1 = (if \<not> driver_operation_simulate s then
                       do_write (channel_command_name (chan s i) @ '':VDIV '' @ fmt_5e X v) s
                     else s);
               s2 = set_cache_valid False ''channel_scale'' (Some i) s1
           in (Inr (), set_cache_valid False ''channel_range'' (Some i) s2)))"

definition get_channel_range ::
    "'f extern \<Rightarrow> int \<Rightarrow> 'f driver \<Rightarrow> (error + 'f) \<times> 'f driver" where
  "get_channel_range X index s =
     (case get_index (map channel_name (channels s)) index of
        Inl e \<Rightarrow> (Inl e, s)
      | Inr i \<Rightarrow>
          (case get_channel_scale X (int i) s of
             (Inl e, s1) \<Rightarrow> (Inl e, s1)
           | (Inr _, s1) \<Rightarrow> (Inr (channel_range (chan s1 i)), s1)))"

definition set_channel_range ::
    "'f extern \<Rightarrow> int \<Rightarrow> 'f \<Rightarrow> 'f driver \<Rightarrow> (error + unit) \<times> 'f driver" where
  "set_channel_range X index v s =
     set_channel_scale X index (fdiv X v (lit X vertical_divisions 0)) s"

subsection \<open>The trigger\<close>

text \<open>The getter of the trigger coupling stores what it reads and leaves the entry invalid.\<close>

definition get_trigger_coupling :: "'f extern \<Rightarrow> 'f driver \<Rightarrow> (error + string) \<times> 'f driver" where
  "get_trigger_coupling X s =
     (if \<not> driver_operation_simulate s \<and> \<not> get_cache_valid ''trigger_coupling'' None s then
        (let (r, s1) = do_ask X ''TCPL?'' s in
         case reverse_lookup TriggerCouplingMapping (lower r) of
           Inl e \<Rightarrow> (Inl e, s1)
         | Inr k \<Rightarrow> (let s2 = s1\<lparr>trigger_coupling := k\<rparr> in (Inr (trigger_coupling s2), s2)))
      else (Inr (trigger_coupling s), s))"

definition set_trigger_coupling :: "'f extern \<Rightarrow> string \<Rightarrow> 'f driver \<Rightarrow> (error + unit) \<times> 'f driver" where
  "set_trigger_coupling X v s =
     (case map_of TriggerCouplingMapping v of
        None \<Rightarrow> (Inl ValueNotSupportedException, s)
      | Some m \<Rightarrow>
          (let s1 = (if \<not> driver_operation_simulate s then do_write (''TCPL '' @ m) s else s)
           in (Inr (), set_cache_valid True ''trigger_coupling'' None (s1\<lparr>trigger_coupling := v\<rparr>))))"

definition get_trigger_holdoff :: "'f extern \<Rightarrow> 'f driver \<Rightarrow> (error + 'f) \<times> 'f driver" where
  "get_trigger_holdoff X s =
     (if \<not> driver_operation_simulate s \<and> \<not> get_cache_valid ''trigger_holdoff'' None s then
        (let (r, s1) = do_ask X ''THTM?'' s in
         case pyfloat X r of
           None \<Rightarrow> (Inl ValueError, s1)
         | Some v \<Rightarrow>
             (let s2 = set_cache_valid True ''trigger_holdoff'' None (s1\<lparr>trigger_holdoff := v\<rparr>)
              in (Inr (trigger_holdoff s2), s2)))
      else (Inr (trigger_holdoff s), s))"

definition set_trigger_holdoff :: "'f extern \<Rightarrow> 'f \<Rightarrow> 'f driver \<Rightarrow> (error + unit) \<times> 'f driver" where
  "set_trigger_holdoff X v s =
     (let s1 = (if \<not> driver_operation_simulate s then do_write (''THTM '' @ fmt_5e X v) s else s)
      in (Inr (), set_cache_valid True ''trigger_holdoff'' None (s1\<lparr>trigger_holdoff := v\<rparr>)))"

definition get_trigger_level :: "'f extern \<Rightarrow> 'f driver \<Rightarrow> (error + 'f) \<times> 'f driver" where
  "get_trigger_level X s =
     (if \<not> driver_operation_simulate s \<and> \<not> get_cache_valid ''trigger_level'' None s then
        (let (r, s1) = do_ask X ''TLVL?'' s in
         case pyfloat X r of
           None \<Rightarrow> (Inl ValueError, s1)
         | Some v \<Rightarrow>
             (let s2 = set_cache_valid True ''trigger_level'' None (s1\<lparr>trigger_level := v\<rparr>)
              in (Inr (trigger_level s2), s2)))
      else (Inr (trigger_level s), s))"

definition set_trigger_level :: "'f extern \<Rightarrow> 'f \<Rightarrow> 'f driver \<Rightarrow> (error + unit) \<times> 'f driver" where
  "set_trigger_level X v s =
     (let s1 = (if \<not> driver_operation_simulate s then do_write (''TLVL '' @ fmt_5e X v) s else s)
      in (Inr (), set_cache_valid True ''trigger_level'' None (s1\<lparr>trigger_level := v\<rparr>)))"

definition get_trigger_edge_slope :: "'f extern \<Rightarrow> 'f driver \<Rightarrow> (error + string) \<times> 'f driver" where
  "get_trigger_edge_slope X s =
     (if \<not> driver_operation_simulate s \<and> \<not> get_cache_valid ''trigger_edge_slope'' None s then
        (let (r, s1) = do_ask X ''TSLP?'' s in
         case reverse_lookup SlopeMapping (lower r) of
           Inl e \<Rightarrow> (Inl e, s1)
         | Inr k \<Rightarrow>
             (let s2 = set_cache_valid True ''trigger_edge_slope'' None (s1\<lparr>trigger_edge_slope := k\<rparr>)
              in (Inr (trigger_edge_slope s2), s2)))
      else (Inr (trigger_edge_slope s), s))"

definition set_trigger_edge_slope ::
    "'f extern \<Rightarrow> string \<Rightarrow> 'f driver \<Rightarrow> (error + unit) \<times> 'f driver" where
  "set_trigger_edge_slope X v s =
     (case map_of SlopeMapping v of
        None \<Rightarrow> (Inl ValueNotSupportedException, s)
      | Some m \<Rightarrow>
          (let s1 = (if \<not> driver_operation_simulate s then do_write (''TSLP '' @ m) s else s)
           in (Inr (), set_cache_valid True ''trigger_edge_slope'' None
                         (s1\<lparr>trigger_edge_slope := v\<rparr>))))"

definition get_trigger_source :: "'f extern \<Rightarrow> 'f driver \<Rightarrow> (error + string) \<times> 'f driver" where
  "get_trigger_source X s =
     (if \<not> driver_operation_simulate s \<and> \<not> get_cache_valid ''trigger_source'' None s then
        (let (r, s1) = do_ask X ''TSRC?'' s;
             v = (if startswith r ''EXT'' then ''external'' else lower r);
             s2 = set_cache_valid True ''trigger_source'' None (s1\<lparr>trigger_source := v\<rparr>)
         in (Inr (trigger_source s2), s2))
      else (Inr (trigger_source s), s))"

definition set_trigger_source :: "'f extern \<Rightarrow> string \<Rightarrow> 'f driver \<Rightarrow> (error + unit) \<times> 'f driver" where
  "set_trigger_source X v s =
     (if lower v \<noteq> ''external'' \<and> v \<notin> set (map channel_name (channels s)) then
        (Inl UnknownPhysicalNameException, s)
      else
        (let w = (if lower v = ''external'' then ''EXT10'' else v);
             s1 = (if \<not> driver_operation_simulate s then do_write (''TSRC '' @ w) s else s)
         in (Inr (), set_cache_valid True ''trigger_source'' None (s1\<lparr>trigger_source := w\<rparr>))))"

definition get_trigger_type :: "'f extern \<Rightarrow> 'f driver \<Rightarrow> (error + string) \<times> 'f driver" where
  "get_trigger_type X s =
     (if \<not> driver_operation_simulate s \<and> \<not> get_cache_valid ''trigger_type'' None s then
        (let (r, s1) = do_ask X ''TTYP?'' s in
         if lower r = ''edge'' then
           (let (src, s2) = do_ask X ''TSRC?'' s1;
                v = (if lower src = ''line'' then ''ac_line'' else lower r);
                s3 = set_cache_valid True ''trigger_type'' None (s2\<lparr>trigger_type := v\<rparr>)
            in (Inr (trigger_type s3), s3))
         else
           (case reverse_lookup TriggerTypeMapping (lower r) of
              Inl e \<Rightarrow> (Inl e, s1)
            | Inr k \<Rightarrow>
                (let s3 = set_cache_valid True ''trigger_type'' None (s1\<lparr>trigger_type := k\<rparr>)
                 in (Inr (trigger_type s3), s3))))
      else (Inr (trigger_type s), s))"

definition set_trigger_type :: "'f extern \<Rightarrow> string \<Rightarrow> 'f driver \<Rightarrow> (error + unit) \<times> 'f driver" where
  "set_trigger_type X v s =
     (case map_of TriggerTypeMapping v of
        None \<Rightarrow> (Inl ValueNotSupportedException, s)
      | Some m \<Rightarrow>
          (let s1 = (if \<not> driver_operation_simulate s then
                       (let s' = do_write (''TTYP '' @ m) s
                        in if v = ''ac_line'' then do_write ''TSRC LINE'' s' else s')
                     else s)
           in (Inr (), set_cache_valid True ''trigger_type'' None (s1\<lparr>trigger_type := v\<rparr>))))"

definition get_trigger_continuous :: "'f extern \<Rightarrow> 'f driver \<Rightarrow> (error + bool) \<times> 'f driver" where
  "get_trigger_continuous X s =
     (if \<not> driver_operation_simulate s \<and> \<not> get_cache_valid ''trigger_continuous'' None s then
        (let (r, s1) = do_ask X ''TRMD?'' s;
             s2 = set_cache_valid True ''trigger_continuous'' None
                    (s1\<lparr>trigger_continuous := (lower r = ''auto'' \<or> lower r = ''endless'')\<rparr>)
         in (Inr (trigger_continuous s2), s2))
      else (Inr (trigger_continuous s), s))"

definition set_trigger_continuous :: "'f extern \<Rightarrow> bool \<Rightarrow> 'f driver \<Rightarrow> (error + unit) \<times> 'f driver" where
  "set_trigger_continuous X v s =
     (let s1 = (if \<not> driver_operation_simulate s then
                  (if v then do_write ''RUN'' s else do_write ''STOP'' s)
                else s)
      in (Inr (), set_cache_valid True ''trigger_continuous'' None (s1\<lparr>trigger_continuous := v\<rparr>)))"

subsection \<open>Numbers with an engineering suffix\<close>

definition to_float :: "'f extern \<Rightarrow> string \<Rightarrow> error + 'f" where
  "to_float X s = (case pyfloat X s of None \<Rightarrow> Inl ValueError | Some v \<Rightarrow> Inr v)"

text \<open>\<^verbatim>\<open>float(s) * 1e\<close>\<open>e\<close>\<close>

definition scaled :: "'f extern \<Rightarrow> string \<Rightarrow> int \<Rightarrow> error + 'f" where
  "scaled X s e = (case to_float X s of Inl err \<Rightarrow> Inl err | Inr v \<Rightarrow> Inr (fmul X v (lit X 1 e)))"

definition suffixed_string_to_float :: "'f extern \<Rightarrow> string \<Rightarrow> error + 'f" where
  "suffixed_string_to_float X string =
     (if endswith string ''n'' then scaled X (rstrip ''n'' string) (- 9)
      else if endswith string ''u'' then scaled X (rstrip ''u'' string) (- 6)
      else if endswith string ''m'' then scaled X (rstrip ''m'' string) (- 3)
      else if endswith (lower string) ''k'' then scaled X (rstrip ''kK'' string) 3
      else if endswith string ''M'' then scaled X (rstrip ''M'' string) 6
      else to_float X string)"

subsection \<open>The waveform decoder\<close>

text \<open>\<^verbatim>\<open>pre[k].split('=')[1].lstrip()\<close>\<close>

definition field_value :: "string list \<Rightarrow> nat \<Rightarrow> error + string" where
  "field_value pre k =
     (case item pre k of
        Inl e \<Rightarrow> Inl e
      | Inr f \<Rightarrow>
          (case item (split_on CHR ''='' f) 1 of
             Inl e \<Rightarrow> Inl e
           | Inr v \<Rightarrow> Inr (lstrip v)))"

text \<open>A field with its unit letter stripped, through the suffix parser.\<close>

definition field_float :: "'f extern \<Rightarrow> string list \<Rightarrow> nat \<Rightarrow> string \<Rightarrow> error + 'f" where
  "field_float X pre k unit_chars =
     (case field_value pre k of
        Inl e \<Rightarrow> Inl e
      | Inr v \<Rightarrow> suffixed_string_to_float X (rstrip unit_chars v))"

text \<open>
  What \<^verbatim>\<open>_measurement_fetch_waveform\<close> reads from the preamble, in the order of the
  source: the first field that fails raises.
\<close>

record 'f preamble =
  points :: int
  xincrement :: 'f
  xorigin :: 'f
  yincrement :: 'f
  yorigin :: 'f

definition read_preamble :: "'f extern \<Rightarrow> nat \<Rightarrow> nat \<Rightarrow> string list \<Rightarrow> error + 'f preamble" where
  "read_preamble X count i pre =
     (case field_value pre (2 + 4 * count + 5) of
        Inl e \<Rightarrow> Inl e
      | Inr ps \<Rightarrow>
     (case pyint X ps of
        None \<Rightarrow> Inl ValueError
      | Some n \<Rightarrow>
     (case field_float X pre (2 + 4 * count + 2) ''s'' of
        Inl e \<Rightarrow> Inl e
      | Inr xinc \<Rightarrow>
     (case field_float X pre (2 + 4 * count + 2) ''s'' of
        Inl e \<Rightarrow> Inl e
      | Inr tdiv \<Rightarrow>
     (case field_float X pre (2 + 4 * count + 3) ''s'' of
        Inl e \<Rightarrow> Inl e
      | Inr trigdelay \<Rightarrow>
     (case field_float X pre (2 + 4 * i + 2) ''V'' of
        Inl e \<Rightarrow> Inl e
      | Inr yinc \<Rightarrow>
     (case field_float X pre (2 + 4 * i + 3) ''V'' of
        Inl e \<Rightarrow> Inl e
      | Inr yorg \<Rightarrow>
          Inr \<lparr>points = n,
               xincrement = xinc,
               xorigin = fneg X (fadd X (fdiv X (fmul X tdiv (lit X horizontal_divisions 0))
                                               (lit X 2 0))
                                       trigdelay),
               yincrement = yinc,
               yorigin = yorg\<rparr>)))))))"

text \<open>\<^verbatim>\<open>struct.unpack(">H", b)[0]\<close>: two bytes, the high one first.\<close>

fun unpack_H :: "8 word list \<Rightarrow> error + nat" where
  "unpack_H [hi, lo] = Inr (256 * unat hi + unat lo)"
| "unpack_H _ = Inl StructError"

text \<open>
  The loop over \<^verbatim>\<open>range(points)\<close>, with the list \<open>data\<close> it appends to:
  \<^verbatim>\<open>raw_data[i*2:i*2+2]\<close> is \<open>take 2 (drop (i * 2) raw_data)\<close>.
\<close>

primrec decode_loop ::
    "'f extern \<Rightarrow> 8 word list \<Rightarrow> 'f \<Rightarrow> 'f \<Rightarrow> 'f \<Rightarrow> 'f \<Rightarrow> nat list \<Rightarrow> ('f \<times> 'f) list
     \<Rightarrow> error + ('f \<times> 'f) list" where
  "decode_loop X raw_data xinc xorg yinc yorg [] data = Inr data"
| "decode_loop X raw_data xinc xorg yinc yorg (i # rest) data =
     (let x = fadd X (fmul X (lit X (int i) 0) xinc) xorg in
      case unpack_H (take 2 (drop (i * 2) raw_data)) of
        Inl e \<Rightarrow> Inl e
      | Inr yval \<Rightarrow>
          (let y = fadd X (fmul X (lit X (int yval) 0) yinc) yorg
           in decode_loop X raw_data xinc xorg yinc yorg rest (data @ [(x, y)])))"

definition measurement_fetch_waveform ::
    "'f extern \<Rightarrow> int \<Rightarrow> 'f driver \<Rightarrow> (error + ('f \<times> 'f) list) \<times> 'f driver" where
  "measurement_fetch_waveform X index s =
     (case get_index (map channel_name (channels s)) index of
        Inl e \<Rightarrow> (Inl e, s)
      | Inr i \<Rightarrow>
          if driver_operation_simulate s then (Inr [], s)
          else
            (let s1 = do_write ''DTFORM WORD'' s;
                 s2 = do_write ''DTBORD H/L'' s1;
                 s3 = do_write ''DTSTART 0'' s2;
                 s4 = do_write ''DTPOINTS 500K'' s3;
                 s5 = do_write (''WAVESRC '' @ channel_name (chan s4 i)) s4;
                 (r, s6) = do_ask X ''DTINF?'' s5
             in
             case read_preamble X (channel_count s6) i (split_on CHR '','' r) of
               Inl e \<Rightarrow> (Inl e, s6)
             | Inr p \<Rightarrow>
             (case get_channel_probe_attenuation X (int i) s6 of
                (Inl e, s7) \<Rightarrow> (Inl e, s7)
              | (Inr a1, s7) \<Rightarrow>
             (case fdiv_int X (yincrement p) a1 of
                Inl e \<Rightarrow> (Inl e, s7)
              | Inr yinc \<Rightarrow>
             (case get_channel_probe_attenuation X (int i) s7 of
                (Inl e, s8) \<Rightarrow> (Inl e, s8)
              | (Inr a2, s8) \<Rightarrow>
             (case fdiv_int X (yorigin p) a2 of
                Inl e \<Rightarrow> (Inl e, s8)
              | Inr yorg \<Rightarrow>
                  (let s9 = do_write ''DTWAVE?'' s8;
                       (raw_data, s10) = read_ieee_block X s9
                   in (decode_loop X raw_data (xincrement p) (xorigin p) yinc yorg
                         [0..<nat (points p)] [],
                       s10))))))))"

text \<open>
  The driver once \<^verbatim>\<open>_measurement_fetch_waveform\<close> has set the transfer up and asked for the
  preamble: the state the reply is given in.
\<close>

definition preamble_asked :: "'f driver \<Rightarrow> nat \<Rightarrow> 'f driver" where
  "preamble_asked s i =
     s\<lparr>io_log := io_log s @
          [Write ''DTFORM WORD'', Write ''DTBORD H/L'', Write ''DTSTART 0'',
           Write ''DTPOINTS 500K'', Write (''WAVESRC '' @ channel_name (chan s i)),
           Ask ''DTINF?'']\<rparr>"

text \<open>The big-endian unsigned 16-bit integer at byte offset \<open>2 * k\<close> of a block.\<close>

definition word_at :: "8 word list \<Rightarrow> nat \<Rightarrow> nat" where
  "word_at raw k = 256 * unat (raw ! (2 * k)) + unat (raw ! (2 * k + 1))"

subsection \<open>The measurement slots\<close>

text \<open>
  \<^verbatim>\<open>self._measurement_slots.items()\<close>: the four slots in the order the dictionary was
  filled, each with its assignment (\<open>None\<close> for a free slot).
\<close>

definition slot_items :: "(slot \<Rightarrow> assignment option) \<Rightarrow> (slot \<times> assignment option) list" where
  "slot_items t = map (\<lambda>k. (k, t k)) [SlotA, SlotB, SlotC, SlotD]"

text \<open>
  The scan: \<open>selected_slot\<close> is threaded through the loop and starts as \<open>None\<close>; the result
  is \<open>(selected_slot, must_configure)\<close>. The first equation is the end of the loop, the
  three branches of the second are the \<^verbatim>\<open>if\<close>, \<^verbatim>\<open>elif\<close>, \<^verbatim>\<open>elif\<close> of the body, and the
  first of them is the \<^verbatim>\<open>break\<close>.
\<close>

fun scan_slots ::
    "'v \<Rightarrow> ('k \<times> 'v option) list \<Rightarrow> 'k option \<Rightarrow> 'k option \<times> bool" where
  "scan_slots want [] selected_slot = (selected_slot, True)"
| "scan_slots want ((slot, value) # rest) selected_slot =
     (if value = Some want then (Some slot, False)
      else if value = None then scan_slots want rest (Some slot)
      else if selected_slot = None then scan_slots want rest (Some slot)
      else scan_slots want rest selected_slot)"

text \<open>
  In simulate mode the method returns the integer 0, here the float of 0. A scan of
  \<open>slot_items\<close> always selects a slot (lemma \<open>scan_slot_items_some\<close>), so the branch with
  \<open>NoSlotSelected\<close> is never taken. \<^verbatim>\<open>"MSEL %s, %s"\<close> is filled from the table entry just
  written: the channel's name and the function, not the slot.
\<close>

definition measurement_fetch_waveform_measurement ::
    "'f extern \<Rightarrow> int \<Rightarrow> string \<Rightarrow> 'f driver \<Rightarrow> (error + 'f) \<times> 'f driver" where
  "measurement_fetch_waveform_measurement X index measurement_function s =
     (case get_index (map channel_name (channels s)) index of
        Inl e \<Rightarrow> (Inl e, s)
      | Inr i \<Rightarrow>
     (case map_of MeasurementFunctionMapping measurement_function of
        None \<Rightarrow> (Inl ValueNotSupportedException, s)
      | Some mf \<Rightarrow>
          if \<not> driver_operation_simulate s then
            (case scan_slots (channel_name (chan s i), mf) (slot_items (measurement_slots s)) None of
               (None, _) \<Rightarrow> (Inl NoSlotSelected, s)
             | (Some selected_slot, must_configure) \<Rightarrow>
                 (let s6 =
                        (if must_configure then
                           (let s1 = do_write ''MDSP ON'' s;
                                s2 = do_write ''MINMAX OFF'' s1;
                                s3 = s2\<lparr>measurement_slots :=
                                          (measurement_slots s2)
                                            (selected_slot := Some (channel_name (chan s2 i), mf))\<rparr>;
                                s4 = do_write (''DIRM '' @ slot_name selected_slot) s3;
                                s5 = (case measurement_slots s4 selected_slot of
                                        None \<Rightarrow> s4
                                      | Some (c, f) \<Rightarrow> do_write (''MSEL '' @ c @ '', '' @ f) s4)
                            in sleep s5)
                         else s);
                      (r, s7) = do_ask X (''MSR'' @ slot_name selected_slot @ ''?'') s6
                  in
                  case item (split_on CHR '','' r) 0 of
                    Inl e \<Rightarrow> (Inl e, s7)
                  | Inr f \<Rightarrow>
                      (case pyfloat X f of
                         None \<Rightarrow> (Inl ValueError, s7)
                       | Some v \<Rightarrow>
                           if feq X v (lit X 991 35) then (Inr (nan X), s7)
                           else (Inr v, s7))))
          else (Inr (lit X 0 0), s)))"

subsection \<open>The selection of a slot, as the specification words it\<close>

text \<open>
  The specification's rule for the slot a request gets: a slot that holds the requested
  pair; else the first empty slot of the scan; else the last slot of the scan. It is
  stated here to be compared with \<open>scan_slots\<close>.
\<close>

definition specified_slot :: "'v \<Rightarrow> ('k \<times> 'v option) list \<Rightarrow> 'k option" where
  "specified_slot want items =
     (case find (\<lambda>kv. snd kv = Some want) items of
        Some kv \<Rightarrow> Some (fst kv)
      | None \<Rightarrow>
          (case find (\<lambda>kv. snd kv = None) items of
             Some kv \<Rightarrow> Some (fst kv)
           | None \<Rightarrow> (if items = [] then None else Some (fst (last items)))))"

text \<open>The factor of a suffix, as a power of ten: the specification's table.\<close>

definition suffix_exponent :: "char \<Rightarrow> int" where
  "suffix_exponent c =
     (if c = CHR ''n'' then - 9
      else if c = CHR ''u'' then - 6
      else if c = CHR ''m'' then - 3
      else if c = CHR ''k'' \<or> c = CHR ''K'' then 3
      else 6)"

text \<open>The characters \<^verbatim>\<open>rstrip\<close> removes with a suffix: the suffix itself, both cases of k.\<close>

definition suffix_strips :: "char \<Rightarrow> string" where
  "suffix_strips c = (if c = CHR ''k'' \<or> c = CHR ''K'' then ''kK'' else [c])"

subsection \<open>A sample arithmetic, a sample instrument and a sample driver\<close>

text \<open>
  For the examples: floats as exact reals with a NaN, \<^verbatim>\<open>float\<close> and \<^verbatim>\<open>int\<close> on the strings
  the examples use, and an instrument that answers by the query alone.
\<close>

datatype sfloat = Num real | NaN

definition num2 :: "(real \<Rightarrow> real \<Rightarrow> real) \<Rightarrow> sfloat \<Rightarrow> sfloat \<Rightarrow> sfloat" where
  "num2 f a b = (case a of NaN \<Rightarrow> NaN | Num x \<Rightarrow> (case b of NaN \<Rightarrow> NaN | Num y \<Rightarrow> Num (f x y)))"

definition sample_lit :: "int \<Rightarrow> int \<Rightarrow> sfloat" where
  "sample_lit m e = Num (if 0 \<le> e then of_int m * 10 ^ nat e else of_int m / 10 ^ nat (- e))"

definition sample_float :: "string \<Rightarrow> sfloat option" where
  "sample_float =
     map_of [(''0'', Num 0), (''1'', Num 1), (''2'', Num 2), (''2.5'', Num (5 / 2)),
             (''1e-9'', Num (1 / 10 ^ 9)), (''9.91e37'', Num (991 * 10 ^ 35)),
             (''0.02'', Num (1 / 50)), (''NaN'', NaN)]"

definition sample_int :: "string \<Rightarrow> int option" where
  "sample_int = map_of [(''1'', 1), (''2'', 2), (''10'', 10), (''16'', 16)]"

definition sample_round :: "sfloat \<Rightarrow> nat \<Rightarrow> sfloat" where
  "sample_round a n = (case a of NaN \<Rightarrow> NaN | Num x \<Rightarrow> Num (of_int (round (x * 10 ^ n)) / 10 ^ n))"

definition sample_fmt :: "sfloat \<Rightarrow> string" where
  "sample_fmt a =
     (if a = Num 1 then ''1.00000e+00''
      else if a = Num (1 / 10 ^ 9) then ''1.00000e-09''
      else ''nan'')"

text \<open>The preamble of the sample instrument, for a driver with one channel.\<close>

definition sample_preamble :: string where
  "sample_preamble = ''a,b,c,d,vdiv= 1mV,vofs= 2V,g,h,tdiv= 2us,dly= 1s,k,pts= 2''"

definition sample_reply :: "io list \<Rightarrow> string" where
  "sample_reply l =
     (if l = [] then []
      else if last l = Ask ''TDIV?'' then ''1e-9''
      else if last l = Ask ''C1:VDIV?'' then ''0.02''
      else if last l = Ask ''MSRD?'' then ''9.91e37,OK''
      else if last l = Ask ''MSRA?'' then ''2.5,OK''
      else if last l = Ask ''DTINF?'' then sample_preamble
      else [])"

definition sample_block :: "io list \<Rightarrow> 8 word list" where
  "sample_block l = [0, 1, 1, 2]"

definition sample_extern :: "sfloat extern" where
  "sample_extern =
     \<lparr>pyfloat = sample_float,
      pyint = sample_int,
      lit = sample_lit,
      fadd = num2 (+),
      fmul = num2 (*),
      fdiv = num2 (/),
      fneg = (\<lambda>a. case a of NaN \<Rightarrow> NaN | Num x \<Rightarrow> Num (- x)),
      feq = (\<lambda>a b. a \<noteq> NaN \<and> a = b),
      flt = (\<lambda>a b. case a of NaN \<Rightarrow> False | Num x \<Rightarrow> (case b of NaN \<Rightarrow> False | Num y \<Rightarrow> x < y)),
      fround = sample_round,
      nan = NaN,
      fmt_5e = sample_fmt,
      reply = sample_reply,
      block = sample_block\<rparr>"

definition sample_channel :: "sfloat channel" where
  "sample_channel =
     \<lparr>channel_name = ''CH1'',
      channel_command_name = ''C1'',
      channel_enabled = False,
      channel_input_impedance = Num 1000000,
      channel_input_frequency_max = Num 500000000,
      channel_probe_attenuation = 10,
      channel_probe_attenuation_auto = PyBool False,
      channel_bw_limit = PyBool False,
      channel_coupling = ''ac'',
      channel_offset = Num 0,
      channel_range = Num 8,
      channel_scale = Num 1\<rparr>"

text \<open>
  A driver with one channel, nothing sent yet, every slot free; its cache holds the
  probe attenuation of the channel and nothing else.
\<close>

definition sample_driver :: "bool \<Rightarrow> sfloat driver" where
  "sample_driver simulate =
     \<lparr>driver_operation_simulate = simulate,
      cache_valid = (\<lambda>e. e = (''channel_probe_attenuation'', Some 0)),
      channel_count = 1,
      channels = [sample_channel],
      timebase_mode = ''main'',
      timebase_position = Num 0,
      timebase_range = Num (1 / 1000),
      timebase_scale = Num (1 / 10000),
      display_vectors = True,
      acquisition_type = ''normal'',
      acquisition_number_of_averages = 2,
      acquisition_sample_mode = ''real_time'',
      trigger_coupling = ''dc'',
      trigger_holdoff = Num 0,
      trigger_level = Num 0,
      trigger_edge_slope = ''positive'',
      trigger_source = ''CH1'',
      trigger_type = ''edge'',
      trigger_continuous = False,
      measurement_slots = (\<lambda>k. None),
      io_log = []\<rparr>"

text \<open>A table with every slot taken by some other measurement.\<close>

definition full_slots :: "slot \<Rightarrow> assignment option" where
  "full_slots k = Some (''CH1'', slot_name k)"

section \<open>Properties\<close>

subsection \<open>The scan of the slot table\<close>


lemma find_append_l: "find P (xs @ ys) = (case find P xs of None \<Rightarrow> find P ys | Some x \<Rightarrow> Some x)"
  by (induction xs) auto

lemma scan_slots_general:
  "scan_slots want items sel =
     (case find (\<lambda>kv. snd kv = Some want) items of
        Some kv \<Rightarrow> (Some (fst kv), False)
      | None \<Rightarrow>
          (case find (\<lambda>kv. snd kv = None) (rev items) of
             Some kv \<Rightarrow> (Some (fst kv), True)
           | None \<Rightarrow>
               (case sel of
                  Some k \<Rightarrow> (Some k, True)
                | None \<Rightarrow> (case items of [] \<Rightarrow> (None, True) | kv # _ \<Rightarrow> (Some (fst kv), True)))))"
proof (induction items arbitrary: sel)
  case Nil
  then show ?case by (simp split: option.splits)
next
  case (Cons a items)
  obtain k v where a: "a = (k, v)" by (cases a)
  show ?case
    unfolding a
    by (simp add: Cons find_append_l split: option.splits list.splits)
qed

text \<open>
  Claim C1, as the code has it. For every requested pair the scan goes through the table
  once, in its order, and selects: the first slot that holds exactly the requested pair,
  if there is one (the scan stops there, nothing is reconfigured); otherwise the last
  empty slot of the scan; otherwise, when no slot matches and none is empty, the first
  slot of the scan, whose assignment is then replaced.
\<close>

theorem scan_slots_selects:
  "scan_slots want items None =
     (case find (\<lambda>kv. snd kv = Some want) items of
        Some kv \<Rightarrow> (Some (fst kv), False)
      | None \<Rightarrow>
          (case find (\<lambda>kv. snd kv = None) (rev items) of
             Some kv \<Rightarrow> (Some (fst kv), True)
           | None \<Rightarrow> (case items of [] \<Rightarrow> (None, True) | kv # _ \<Rightarrow> (Some (fst kv), True))))"
  by (simp add: scan_slots_general split: option.splits)

text \<open>
  Claim C1 as the specification states it (the first empty slot, else the last slot seen)
  fails: on the empty table the code takes slot D where the specification names A, and
  on a full table with no match the code takes slot A where the specification names D.
\<close>

theorem first_empty_last_occupied_counterexample:
  "scan_slots (''CH1'', ''freq'') (slot_items (\<lambda>k. None)) None = (Some SlotD, True) \<and>
   specified_slot (''CH1'', ''freq'') (slot_items (\<lambda>k. None)) = Some SlotA \<and>
   scan_slots (''CH1'', ''freq'') (slot_items full_slots) None = (Some SlotA, True) \<and>
   specified_slot (''CH1'', ''freq'') (slot_items full_slots) = Some SlotD"
  by (simp add: slot_items_def specified_slot_def full_slots_def slot_name_def)

subsection \<open>Strings and the suffix parser\<close>

lemma endswith_snoc: "endswith (p @ [c]) [d] = (c = d)"
  by (simp add: endswith_def)

lemma endswith_char: "endswith s [d] = (s \<noteq> [] \<and> last s = d)"
proof (cases s rule: rev_cases)
  case Nil
  then show ?thesis by (simp add: endswith_def)
next
  case (snoc ys y)
  then show ?thesis by (simp add: endswith_def)
qed

lemma rstrip_snoc:
  "c \<in> set cs \<Longrightarrow> rstrip cs (p @ [c]) = rstrip cs p"
  by (simp add: rstrip_def)

lemma rstrip_id: "p = [] \<or> last p \<notin> set cs \<Longrightarrow> rstrip cs p = p"
proof (cases p rule: rev_cases)
  case Nil
  then show ?thesis by (simp add: rstrip_def)
next
  case (snoc ys y)
  assume "p = [] \<or> last p \<notin> set cs"
  with snoc show ?thesis by (simp add: rstrip_def)
qed

lemma lower_snoc: "lower (p @ [c]) = lower p @ [lower_char c]"
  by (simp add: lower_def)

lemma lower_char_simps:
  "lower_char CHR ''n'' = CHR ''n''" "lower_char CHR ''u'' = CHR ''u''"
  "lower_char CHR ''m'' = CHR ''m''" "lower_char CHR ''k'' = CHR ''k''"
  "lower_char CHR ''K'' = CHR ''k''" "lower_char CHR ''M'' = CHR ''m''"
  by (simp_all add: lower_char_def)


lemma lower_char_k: "(lower_char x = CHR ''k'') = (x = CHR ''k'' \<or> x = CHR ''K'')"
  by (simp add: lower_char_def)

lemma endswith_lower: "endswith (lower s) [d] = (s \<noteq> [] \<and> lower_char (last s) = d)"
  by (cases s rule: rev_cases) (simp_all add: endswith_def lower_def)

lemma suffixed_suffix:
  assumes "c \<in> set ''numkKM''" and "p = [] \<or> last p \<notin> set (suffix_strips c)"
  shows "suffixed_string_to_float X (p @ [c]) = scaled X p (suffix_exponent c)"
proof -
  have id: "rstrip (suffix_strips c) p = p" using assms(2) by (rule rstrip_id)
  from assms(1) consider "c = CHR ''n''" | "c = CHR ''u''" | "c = CHR ''m''" | "c = CHR ''k''"
      | "c = CHR ''K''" | "c = CHR ''M''"
    by auto
  then show ?thesis
  proof cases
    case 1
    with id show ?thesis
      by (simp add: suffixed_string_to_float_def endswith_snoc rstrip_snoc suffix_strips_def
          suffix_exponent_def)
  next
    case 2
    with id show ?thesis
      by (simp add: suffixed_string_to_float_def endswith_snoc rstrip_snoc suffix_strips_def
          suffix_exponent_def)
  next
    case 3
    with id show ?thesis
      by (simp add: suffixed_string_to_float_def endswith_snoc rstrip_snoc suffix_strips_def
          suffix_exponent_def)
  next
    case 4
    with id show ?thesis
      by (simp add: suffixed_string_to_float_def endswith_snoc rstrip_snoc suffix_strips_def
          suffix_exponent_def lower_snoc lower_char_simps)
  next
    case 5
    with id show ?thesis
      by (simp add: suffixed_string_to_float_def endswith_snoc rstrip_snoc suffix_strips_def
          suffix_exponent_def lower_snoc lower_char_simps)
  next
    case 6
    with id show ?thesis
      by (simp add: suffixed_string_to_float_def endswith_snoc rstrip_snoc suffix_strips_def
          suffix_exponent_def lower_snoc lower_char_simps)
  qed
qed

lemma suffixed_plain:
  assumes "s = [] \<or> last s \<notin> set ''numkKM''"
  shows "suffixed_string_to_float X s = to_float X s"
proof (cases "s = []")
  case True
  then show ?thesis
    by (simp add: suffixed_string_to_float_def endswith_def lower_def)
next
  case False
  with assms have l: "last s \<notin> set ''numkKM''" by simp
  then have k: "\<not> endswith (lower s) ''k''"
    by (simp add: endswith_lower lower_char_k)
  from l have "\<not> endswith s ''n''" "\<not> endswith s ''u''" "\<not> endswith s ''m''" "\<not> endswith s ''M''"
    by (simp_all add: endswith_char)
  with k show ?thesis
    by (simp add: suffixed_string_to_float_def)
qed

text \<open>
  Claim C8. A string that ends in one of the suffixes n, u, m, k, K, M, after a prefix
  that does not itself end in that suffix letter, parses to the float of the prefix times
  1e-9, 1e-6, 1e-3, 1e3, 1e3, 1e6 (a ValueError when the prefix is no float); a string
  that ends in none of them parses to its plain float.
\<close>

theorem suffixed_string_to_float_scales:
  "(c \<in> set ''numkKM'' \<and> (p = [] \<or> last p \<notin> set (suffix_strips c)) \<longrightarrow>
      suffixed_string_to_float X (p @ [c]) =
        (case pyfloat X p of
           None \<Rightarrow> Inl ValueError
         | Some v \<Rightarrow> Inr (fmul X v (lit X 1 (suffix_exponent c))))) \<and>
   (s = [] \<or> last s \<notin> set ''numkKM'' \<longrightarrow>
      suffixed_string_to_float X s =
        (case pyfloat X s of None \<Rightarrow> Inl ValueError | Some v \<Rightarrow> Inr v))"
  by (simp add: suffixed_suffix suffixed_plain scaled_def to_float_def split: option.splits)

text \<open>The example of the specification: \<^verbatim>\<open>"2.5m"\<close> is 0.0025, and \<^verbatim>\<open>"2.5"\<close> is 2.5.\<close>

theorem suffixed_string_to_float_scales_witness:
  "suffixed_string_to_float sample_extern ''2.5m'' = Inr (Num (1 / 400)) \<and>
   suffixed_string_to_float sample_extern ''2.5'' = Inr (Num (5 / 2))"
  using suffixed_string_to_float_scales [of "CHR ''m''" "''2.5''" sample_extern "''2.5''"]
  by (simp add: suffix_strips_def suffix_exponent_def sample_extern_def sample_float_def
      sample_lit_def num2_def)

subsection \<open>Channel indices\<close>


lemma get_index_Inr: "get_index l index = Inr i \<Longrightarrow> i < length l \<and> int i = index"
  by (auto simp add: get_index_def split: if_splits)

lemma get_index_int: "i < length l \<Longrightarrow> get_index l (int i) = Inr i"
  by (simp add: get_index_def)

lemma get_index_Inl: "get_index l index = Inl e \<Longrightarrow> e = SelectorRangeException"
  by (auto simp add: get_index_def split: if_splits)

lemma length_upd_channel [simp]: "length (channels (upd_channel i f s)) = length (channels s)"
  by (simp add: upd_channel_def)

lemma names_upd_channel:
  "channel_name (f (channels s ! i)) = channel_name (channels s ! i) \<Longrightarrow>
   map channel_name (channels (upd_channel i f s)) = map channel_name (channels s)"
  by (simp add: upd_channel_def map_update) (metis list_update_id map_update)

text \<open>
  Claim C10. On a channel whose cached coupling is not \<^verbatim>\<open>'dc'\<close>, setting the input impedance
  to a value equal to 1000000 sends nothing, stores the value and marks the entry valid;
  and whatever the value, nothing is sent on such a channel: a CPL command needs the
  coupling \<^verbatim>\<open>'dc'\<close>.
\<close>

theorem impedance_1M_without_command:
  assumes "get_index (map channel_name (channels s)) index = Inr i"
    and "channel_coupling (chan s i) \<noteq> ''dc''"
  shows "(feq X v (lit X 1000000 0) \<longrightarrow>
            (\<exists>s'. set_channel_input_impedance X index v s = (Inr (), s') \<and>
                  io_log s' = io_log s \<and>
                  channel_input_impedance (chan s' i) = v \<and>
                  get_cache_valid ''channel_input_impedance'' (Some i) s')) \<and>
         io_log (snd (set_channel_input_impedance X index v s)) = io_log s"
proof -
  from assms(1) have i: "i < length (channels s)" by (auto dest: get_index_Inr)
  show ?thesis
    using assms i
    by (simp add: set_channel_input_impedance_def set_cache_valid_def get_cache_valid_def
        upd_channel_def chan_def)
qed


subsection \<open>A value set is the value read\<close>

lemmas cache_defs = set_cache_valid_def get_cache_valid_def
lemmas chan_defs = upd_channel_def chan_def get_index_def do_write_def

lemma set_get_timebase_mode:
  "fst (set_timebase_mode X mode_v s) = Inr () \<longrightarrow>
   get_timebase_mode X (snd (set_timebase_mode X mode_v s)) = (Inr mode_v, snd (set_timebase_mode X mode_v s))"
  by (auto simp add: set_timebase_mode_def get_timebase_mode_def cache_defs Let_def split: option.splits)

lemma set_get_timebase_position:
  "fst (set_timebase_position X position_v s) = Inr () \<longrightarrow>
   get_timebase_position X (snd (set_timebase_position X position_v s)) = (Inr position_v, snd (set_timebase_position X position_v s))"
  by (auto simp add: set_timebase_position_def get_timebase_position_def cache_defs Let_def split: option.splits)

lemma set_get_display_vectors:
  "fst (set_display_vectors X vectors_v s) = Inr () \<longrightarrow>
   get_display_vectors X (snd (set_display_vectors X vectors_v s)) = (Inr vectors_v, snd (set_display_vectors X vectors_v s))"
  by (auto simp add: set_display_vectors_def get_display_vectors_def cache_defs Let_def split: option.splits)

lemma set_get_acquisition_type:
  "fst (set_acquisition_type X atype_v s) = Inr () \<longrightarrow>
   get_acquisition_type X (snd (set_acquisition_type X atype_v s)) = (Inr atype_v, snd (set_acquisition_type X atype_v s))"
  by (auto simp add: set_acquisition_type_def get_acquisition_type_def cache_defs Let_def split: option.splits)

lemma set_get_acquisition_number_of_averages:
  "fst (set_acquisition_number_of_averages X averages_v s) = Inr () \<longrightarrow>
   get_acquisition_number_of_averages X (snd (set_acquisition_number_of_averages X averages_v s)) = (Inr averages_v, snd (set_acquisition_number_of_averages X averages_v s))"
  by (auto simp add: set_acquisition_number_of_averages_def get_acquisition_number_of_averages_def cache_defs Let_def split: option.splits)

lemma set_get_acquisition_sample_mode:
  "fst (set_acquisition_sample_mode X smode_v s) = Inr () \<longrightarrow>
   get_acquisition_sample_mode X (snd (set_acquisition_sample_mode X smode_v s)) = (Inr smode_v, snd (set_acquisition_sample_mode X smode_v s))"
  by (auto simp add: set_acquisition_sample_mode_def get_acquisition_sample_mode_def cache_defs Let_def split: option.splits)

lemma set_get_trigger_coupling:
  "fst (set_trigger_coupling X tcoupling_v s) = Inr () \<longrightarrow>
   get_trigger_coupling X (snd (set_trigger_coupling X tcoupling_v s)) = (Inr tcoupling_v, snd (set_trigger_coupling X tcoupling_v s))"
  by (auto simp add: set_trigger_coupling_def get_trigger_coupling_def cache_defs Let_def split: option.splits)

lemma set_get_trigger_holdoff:
  "fst (set_trigger_holdoff X holdoff_v s) = Inr () \<longrightarrow>
   get_trigger_holdoff X (snd (set_trigger_holdoff X holdoff_v s)) = (Inr holdoff_v, snd (set_trigger_holdoff X holdoff_v s))"
  by (auto simp add: set_trigger_holdoff_def get_trigger_holdoff_def cache_defs Let_def split: option.splits)

lemma set_get_trigger_level:
  "fst (set_trigger_level X level_v s) = Inr () \<longrightarrow>
   get_trigger_level X (snd (set_trigger_level X level_v s)) = (Inr level_v, snd (set_trigger_level X level_v s))"
  by (auto simp add: set_trigger_level_def get_trigger_level_def cache_defs Let_def split: option.splits)

lemma set_get_trigger_edge_slope:
  "fst (set_trigger_edge_slope X slope_v s) = Inr () \<longrightarrow>
   get_trigger_edge_slope X (snd (set_trigger_edge_slope X slope_v s)) = (Inr slope_v, snd (set_trigger_edge_slope X slope_v s))"
  by (auto simp add: set_trigger_edge_slope_def get_trigger_edge_slope_def cache_defs Let_def split: option.splits)

lemma set_get_trigger_type:
  "fst (set_trigger_type X ttype_v s) = Inr () \<longrightarrow>
   get_trigger_type X (snd (set_trigger_type X ttype_v s)) = (Inr ttype_v, snd (set_trigger_type X ttype_v s))"
  by (auto simp add: set_trigger_type_def get_trigger_type_def cache_defs Let_def split: option.splits)

lemma set_get_trigger_continuous:
  "fst (set_trigger_continuous X continuous_v s) = Inr () \<longrightarrow>
   get_trigger_continuous X (snd (set_trigger_continuous X continuous_v s)) = (Inr continuous_v, snd (set_trigger_continuous X continuous_v s))"
  by (auto simp add: set_trigger_continuous_def get_trigger_continuous_def cache_defs Let_def split: option.splits)

lemma set_get_trigger_source:
  "lower source_v \<noteq> ''external'' \<and> fst (set_trigger_source X source_v s) = Inr () \<longrightarrow>
   get_trigger_source X (snd (set_trigger_source X source_v s)) =
     (Inr source_v, snd (set_trigger_source X source_v s))"
  by (auto simp add: set_trigger_source_def get_trigger_source_def cache_defs Let_def)

lemma set_get_channel_enabled:
  "fst (set_channel_enabled X index enabled_v s) = Inr () \<longrightarrow>
   get_channel_enabled X index (snd (set_channel_enabled X index enabled_v s)) = (Inr enabled_v, snd (set_channel_enabled X index enabled_v s))"
  by (auto simp add: set_channel_enabled_def get_channel_enabled_def cache_defs chan_defs Let_def
      split: sum.splits if_splits option.splits prod.splits)

lemma set_get_channel_input_impedance:
  "fst (set_channel_input_impedance X index impedance_v s) = Inr () \<longrightarrow>
   get_channel_input_impedance X index (snd (set_channel_input_impedance X index impedance_v s)) = (Inr impedance_v, snd (set_channel_input_impedance X index impedance_v s))"
  by (auto simp add: set_channel_input_impedance_def get_channel_input_impedance_def cache_defs chan_defs Let_def
      split: sum.splits if_splits option.splits prod.splits)

lemma set_get_channel_input_frequency_max:
  "fst (set_channel_input_frequency_max X index fmax_v s) = Inr () \<longrightarrow>
   get_channel_input_frequency_max X index (snd (set_channel_input_frequency_max X index fmax_v s)) = (Inr fmax_v, snd (set_channel_input_frequency_max X index fmax_v s))"
  by (auto simp add: set_channel_input_frequency_max_def get_channel_input_frequency_max_def set_channel_bw_limit_def cache_defs chan_defs Let_def
      split: sum.splits if_splits option.splits prod.splits)

lemma set_get_channel_probe_attenuation:
  "fst (set_channel_probe_attenuation X index attenuation_v s) = Inr () \<longrightarrow>
   get_channel_probe_attenuation X index (snd (set_channel_probe_attenuation X index attenuation_v s)) = (Inr attenuation_v, snd (set_channel_probe_attenuation X index attenuation_v s))"
  by (auto simp add: set_channel_probe_attenuation_def get_channel_probe_attenuation_def cache_defs chan_defs Let_def
      split: sum.splits if_splits option.splits prod.splits)

lemma set_get_channel_coupling:
  "fst (set_channel_coupling X index coupling_v s) = Inr () \<longrightarrow>
   get_channel_coupling X index (snd (set_channel_coupling X index coupling_v s)) = (Inr coupling_v, snd (set_channel_coupling X index coupling_v s))"
  by (auto simp add: set_channel_coupling_def get_channel_coupling_def cache_defs chan_defs Let_def
      split: sum.splits if_splits option.splits prod.splits)

lemma set_get_channel_offset:
  "fst (set_channel_offset X index offset_v s) = Inr () \<longrightarrow>
   get_channel_offset X index (snd (set_channel_offset X index offset_v s)) = (Inr offset_v, snd (set_channel_offset X index offset_v s))"
  by (auto simp add: set_channel_offset_def get_channel_offset_def cache_defs chan_defs Let_def
      split: sum.splits if_splits option.splits prod.splits)

lemma set_get_channel_bw_limit:
  "fst (set_channel_bw_limit X index (PyStr limit_v) s) = Inr () \<longrightarrow>
   get_channel_bw_limit X index (snd (set_channel_bw_limit X index (PyStr limit_v) s)) =
     (Inr (PyStr limit_v), snd (set_channel_bw_limit X index (PyStr limit_v) s))"
  by (auto simp add: set_channel_bw_limit_def get_channel_bw_limit_def cache_defs chan_defs Let_def
      split: sum.splits if_splits)

text \<open>
  What the code does for the automatic probe attenuation: the flag_v set reads back as the
  word the setter sent, not as the flag.
\<close>

lemma set_get_channel_probe_attenuation_auto:
  "fst (set_channel_probe_attenuation_auto X index flag_v s) = Inr () \<longrightarrow>
   get_channel_probe_attenuation_auto X index (snd (set_channel_probe_attenuation_auto X index flag_v s)) =
     (Inr (PyStr (if flag_v then ''auto'' else ''manual'')),
      snd (set_channel_probe_attenuation_auto X index flag_v s))"
  by (auto simp add: set_channel_probe_attenuation_auto_def get_channel_probe_attenuation_auto_def
      cache_defs chan_defs Let_def split: sum.splits if_splits)

lemma set_get_timebase_scale:
  "io_log (snd (get_timebase_scale X (snd (set_timebase_scale X tscale_v s)))) =
     (if driver_operation_simulate s then io_log (snd (set_timebase_scale X tscale_v s))
      else io_log (snd (set_timebase_scale X tscale_v s)) @ [Ask ''TDIV?''])"
  by (auto simp add: set_timebase_scale_def get_timebase_scale_def cache_defs do_ask_def do_write_def
      Let_def split: option.splits)

lemma set_get_channel_scale:
  "fst (set_channel_scale X index cscale_v s) = Inr () \<longrightarrow>
   io_log (snd (get_channel_scale X index (snd (set_channel_scale X index cscale_v s)))) =
     (if driver_operation_simulate s then io_log (snd (set_channel_scale X index cscale_v s))
      else io_log (snd (set_channel_scale X index cscale_v s)) @
           [Ask (channel_command_name (chan s (nat index)) @ '':VDIV?'')])"
  by (auto simp add: set_channel_scale_def get_channel_scale_def cache_defs do_ask_def chan_defs
      Let_def split: option.splits sum.splits if_splits)

text \<open>
  Claim C2, as the code has it. For every attribute whose setter stores the caller's value
  and marks the entry valid, a successful \<open>set x\<close> followed by \<open>get\<close> (same channel index)
  returns \<open>x\<close> and leaves the state, the log with it, as the setter left it: no query. This
  covers the bandwidth limit given as a word and the trigger source given as a channel
  name. For the timebase scale and the channel scale, \<open>get\<close> after \<open>set x\<close> sends exactly
  one query when the driver is not simulating, whatever \<open>x\<close>, and none when it is.
\<close>

theorem set_then_get:
  "(fst (set_timebase_mode X mode_v s) = Inr () \<longrightarrow>
      get_timebase_mode X (snd (set_timebase_mode X mode_v s)) = (Inr mode_v, snd (set_timebase_mode X mode_v s))) \<and>
   (fst (set_timebase_position X position_v s) = Inr () \<longrightarrow>
      get_timebase_position X (snd (set_timebase_position X position_v s)) = (Inr position_v, snd (set_timebase_position X position_v s))) \<and>
   (fst (set_display_vectors X vectors_v s) = Inr () \<longrightarrow>
      get_display_vectors X (snd (set_display_vectors X vectors_v s)) = (Inr vectors_v, snd (set_display_vectors X vectors_v s))) \<and>
   (fst (set_acquisition_type X atype_v s) = Inr () \<longrightarrow>
      get_acquisition_type X (snd (set_acquisition_type X atype_v s)) = (Inr atype_v, snd (set_acquisition_type X atype_v s))) \<and>
   (fst (set_acquisition_number_of_averages X averages_v s) = Inr () \<longrightarrow>
      get_acquisition_number_of_averages X (snd (set_acquisition_number_of_averages X averages_v s)) = (Inr averages_v, snd (set_acquisition_number_of_averages X averages_v s))) \<and>
   (fst (set_acquisition_sample_mode X smode_v s) = Inr () \<longrightarrow>
      get_acquisition_sample_mode X (snd (set_acquisition_sample_mode X smode_v s)) = (Inr smode_v, snd (set_acquisition_sample_mode X smode_v s))) \<and>
   (fst (set_trigger_coupling X tcoupling_v s) = Inr () \<longrightarrow>
      get_trigger_coupling X (snd (set_trigger_coupling X tcoupling_v s)) = (Inr tcoupling_v, snd (set_trigger_coupling X tcoupling_v s))) \<and>
   (fst (set_trigger_holdoff X holdoff_v s) = Inr () \<longrightarrow>
      get_trigger_holdoff X (snd (set_trigger_holdoff X holdoff_v s)) = (Inr holdoff_v, snd (set_trigger_holdoff X holdoff_v s))) \<and>
   (fst (set_trigger_level X level_v s) = Inr () \<longrightarrow>
      get_trigger_level X (snd (set_trigger_level X level_v s)) = (Inr level_v, snd (set_trigger_level X level_v s))) \<and>
   (fst (set_trigger_edge_slope X slope_v s) = Inr () \<longrightarrow>
      get_trigger_edge_slope X (snd (set_trigger_edge_slope X slope_v s)) = (Inr slope_v, snd (set_trigger_edge_slope X slope_v s))) \<and>
   (fst (set_trigger_type X ttype_v s) = Inr () \<longrightarrow>
      get_trigger_type X (snd (set_trigger_type X ttype_v s)) = (Inr ttype_v, snd (set_trigger_type X ttype_v s))) \<and>
   (fst (set_trigger_continuous X continuous_v s) = Inr () \<longrightarrow>
      get_trigger_continuous X (snd (set_trigger_continuous X continuous_v s)) = (Inr continuous_v, snd (set_trigger_continuous X continuous_v s))) \<and>
   (lower source_v \<noteq> ''external'' \<and> fst (set_trigger_source X source_v s) = Inr () \<longrightarrow>
      get_trigger_source X (snd (set_trigger_source X source_v s)) =
        (Inr source_v, snd (set_trigger_source X source_v s))) \<and>
   (fst (set_channel_enabled X index enabled_v s) = Inr () \<longrightarrow>
      get_channel_enabled X index (snd (set_channel_enabled X index enabled_v s)) =
        (Inr enabled_v, snd (set_channel_enabled X index enabled_v s))) \<and>
   (fst (set_channel_input_impedance X index impedance_v s) = Inr () \<longrightarrow>
      get_channel_input_impedance X index (snd (set_channel_input_impedance X index impedance_v s)) =
        (Inr impedance_v, snd (set_channel_input_impedance X index impedance_v s))) \<and>
   (fst (set_channel_input_frequency_max X index fmax_v s) = Inr () \<longrightarrow>
      get_channel_input_frequency_max X index (snd (set_channel_input_frequency_max X index fmax_v s)) =
        (Inr fmax_v, snd (set_channel_input_frequency_max X index fmax_v s))) \<and>
   (fst (set_channel_probe_attenuation X index attenuation_v s) = Inr () \<longrightarrow>
      get_channel_probe_attenuation X index (snd (set_channel_probe_attenuation X index attenuation_v s)) =
        (Inr attenuation_v, snd (set_channel_probe_attenuation X index attenuation_v s))) \<and>
   (fst (set_channel_coupling X index coupling_v s) = Inr () \<longrightarrow>
      get_channel_coupling X index (snd (set_channel_coupling X index coupling_v s)) =
        (Inr coupling_v, snd (set_channel_coupling X index coupling_v s))) \<and>
   (fst (set_channel_offset X index offset_v s) = Inr () \<longrightarrow>
      get_channel_offset X index (snd (set_channel_offset X index offset_v s)) =
        (Inr offset_v, snd (set_channel_offset X index offset_v s))) \<and>
   (fst (set_channel_bw_limit X index (PyStr limit_v) s) = Inr () \<longrightarrow>
      get_channel_bw_limit X index (snd (set_channel_bw_limit X index (PyStr limit_v) s)) =
        (Inr (PyStr limit_v), snd (set_channel_bw_limit X index (PyStr limit_v) s))) \<and>
   io_log (snd (get_timebase_scale X (snd (set_timebase_scale X tscale_v s)))) =
     (if driver_operation_simulate s then io_log (snd (set_timebase_scale X tscale_v s))
      else io_log (snd (set_timebase_scale X tscale_v s)) @ [Ask ''TDIV?'']) \<and>
   (fst (set_channel_scale X index cscale_v s) = Inr () \<longrightarrow>
      io_log (snd (get_channel_scale X index (snd (set_channel_scale X index cscale_v s)))) =
        (if driver_operation_simulate s then io_log (snd (set_channel_scale X index cscale_v s))
         else io_log (snd (set_channel_scale X index cscale_v s)) @
              [Ask (channel_command_name (chan s (nat index)) @ '':VDIV?'')]))"
  by (intro conjI)
    (rule set_get_timebase_mode
       set_get_timebase_position
       set_get_display_vectors
       set_get_acquisition_type
       set_get_acquisition_number_of_averages
       set_get_acquisition_sample_mode
       set_get_trigger_coupling
       set_get_trigger_holdoff
       set_get_trigger_level
       set_get_trigger_edge_slope
       set_get_trigger_type
       set_get_trigger_continuous
       set_get_trigger_source
       set_get_channel_enabled
       set_get_channel_input_impedance
       set_get_channel_input_frequency_max
       set_get_channel_probe_attenuation
       set_get_channel_coupling
       set_get_channel_offset
       set_get_channel_bw_limit
       set_get_timebase_scale
       set_get_channel_scale)+

text \<open>Every conjunct at the sample driver, with the instrument attached.\<close>

theorem set_then_get_witness:
  "get_timebase_mode sample_extern (snd (set_timebase_mode sample_extern (''xy'') (sample_driver False))) =
     (Inr (''xy''), snd (set_timebase_mode sample_extern (''xy'') (sample_driver False))) \<and>
   get_timebase_position sample_extern (snd (set_timebase_position sample_extern (Num 1) (sample_driver False))) =
     (Inr (Num 1), snd (set_timebase_position sample_extern (Num 1) (sample_driver False))) \<and>
   get_display_vectors sample_extern (snd (set_display_vectors sample_extern (False) (sample_driver False))) =
     (Inr (False), snd (set_display_vectors sample_extern (False) (sample_driver False))) \<and>
   get_acquisition_type sample_extern (snd (set_acquisition_type sample_extern (''average'') (sample_driver False))) =
     (Inr (''average''), snd (set_acquisition_type sample_extern (''average'') (sample_driver False))) \<and>
   get_acquisition_number_of_averages sample_extern (snd (set_acquisition_number_of_averages sample_extern (16) (sample_driver False))) =
     (Inr (16), snd (set_acquisition_number_of_averages sample_extern (16) (sample_driver False))) \<and>
   get_acquisition_sample_mode sample_extern (snd (set_acquisition_sample_mode sample_extern (''equivalent_time'') (sample_driver False))) =
     (Inr (''equivalent_time''), snd (set_acquisition_sample_mode sample_extern (''equivalent_time'') (sample_driver False))) \<and>
   get_trigger_coupling sample_extern (snd (set_trigger_coupling sample_extern (''ac'') (sample_driver False))) =
     (Inr (''ac''), snd (set_trigger_coupling sample_extern (''ac'') (sample_driver False))) \<and>
   get_trigger_holdoff sample_extern (snd (set_trigger_holdoff sample_extern (Num 1) (sample_driver False))) =
     (Inr (Num 1), snd (set_trigger_holdoff sample_extern (Num 1) (sample_driver False))) \<and>
   get_trigger_level sample_extern (snd (set_trigger_level sample_extern (Num 1) (sample_driver False))) =
     (Inr (Num 1), snd (set_trigger_level sample_extern (Num 1) (sample_driver False))) \<and>
   get_trigger_edge_slope sample_extern (snd (set_trigger_edge_slope sample_extern (''negative'') (sample_driver False))) =
     (Inr (''negative''), snd (set_trigger_edge_slope sample_extern (''negative'') (sample_driver False))) \<and>
   get_trigger_type sample_extern (snd (set_trigger_type sample_extern (''ac_line'') (sample_driver False))) =
     (Inr (''ac_line''), snd (set_trigger_type sample_extern (''ac_line'') (sample_driver False))) \<and>
   get_trigger_continuous sample_extern (snd (set_trigger_continuous sample_extern (True) (sample_driver False))) =
     (Inr (True), snd (set_trigger_continuous sample_extern (True) (sample_driver False))) \<and>
   get_trigger_source sample_extern (snd (set_trigger_source sample_extern ''CH1'' (sample_driver False))) =
     (Inr ''CH1'', snd (set_trigger_source sample_extern ''CH1'' (sample_driver False))) \<and>
   get_channel_enabled sample_extern 0 (snd (set_channel_enabled sample_extern 0 (True) (sample_driver False))) =
     (Inr (True), snd (set_channel_enabled sample_extern 0 (True) (sample_driver False))) \<and>
   get_channel_input_impedance sample_extern 0 (snd (set_channel_input_impedance sample_extern 0 (Num 1000000) (sample_driver False))) =
     (Inr (Num 1000000), snd (set_channel_input_impedance sample_extern 0 (Num 1000000) (sample_driver False))) \<and>
   get_channel_input_frequency_max sample_extern 0 (snd (set_channel_input_frequency_max sample_extern 0 (Num 1) (sample_driver False))) =
     (Inr (Num 1), snd (set_channel_input_frequency_max sample_extern 0 (Num 1) (sample_driver False))) \<and>
   get_channel_probe_attenuation sample_extern 0 (snd (set_channel_probe_attenuation sample_extern 0 (2) (sample_driver False))) =
     (Inr (2), snd (set_channel_probe_attenuation sample_extern 0 (2) (sample_driver False))) \<and>
   get_channel_coupling sample_extern 0 (snd (set_channel_coupling sample_extern 0 (''dc'') (sample_driver False))) =
     (Inr (''dc''), snd (set_channel_coupling sample_extern 0 (''dc'') (sample_driver False))) \<and>
   get_channel_offset sample_extern 0 (snd (set_channel_offset sample_extern 0 (Num 1) (sample_driver False))) =
     (Inr (Num 1), snd (set_channel_offset sample_extern 0 (Num 1) (sample_driver False))) \<and>
   get_channel_bw_limit sample_extern 0 (snd (set_channel_bw_limit sample_extern 0 (PyStr ''20m'') (sample_driver False))) =
     (Inr (PyStr ''20m''), snd (set_channel_bw_limit sample_extern 0 (PyStr ''20m'') (sample_driver False))) \<and>
   io_log (snd (get_channel_scale sample_extern 0 (snd (set_channel_scale sample_extern 0 (Num 1) (sample_driver False))))) =
     [Write ''C1:VDIV 1.00000e+00'', Ask ''C1:VDIV?''] \<and>
   io_log (snd (get_timebase_scale sample_extern (snd (set_timebase_scale sample_extern (Num 1) (sample_driver False))))) =
     [Write ''TDIV 1.00000e+00'', Ask ''TDIV?'']"
  using set_then_get [where X = sample_extern
      and s = "sample_driver False"
      and index = 0
      and mode_v = "''xy''"
      and position_v = "Num 1"
      and vectors_v = "False"
      and atype_v = "''average''"
      and averages_v = "16"
      and smode_v = "''equivalent_time''"
      and tcoupling_v = "''ac''"
      and holdoff_v = "Num 1"
      and level_v = "Num 1"
      and slope_v = "''negative''"
      and ttype_v = "''ac_line''"
      and continuous_v = "True"
      and enabled_v = "True"
      and impedance_v = "Num 1000000"
      and fmax_v = "Num 1"
      and attenuation_v = "2"
      and coupling_v = "''dc''"
      and offset_v = "Num 1"
      and source_v = "''CH1''"
      and limit_v = "''20m''"
      and tscale_v = "Num 1"
      and cscale_v = "Num 1"]
  by (simp add: set_timebase_mode_def get_timebase_mode_def set_timebase_position_def
      get_timebase_position_def set_display_vectors_def get_display_vectors_def
      set_acquisition_type_def get_acquisition_type_def set_acquisition_number_of_averages_def
      get_acquisition_number_of_averages_def set_acquisition_sample_mode_def
      get_acquisition_sample_mode_def set_trigger_coupling_def get_trigger_coupling_def
      set_trigger_holdoff_def get_trigger_holdoff_def set_trigger_level_def
      get_trigger_level_def set_trigger_edge_slope_def get_trigger_edge_slope_def
      set_trigger_type_def get_trigger_type_def set_trigger_continuous_def
      get_trigger_continuous_def set_channel_enabled_def get_channel_enabled_def
      set_channel_input_impedance_def get_channel_input_impedance_def
      set_channel_input_frequency_max_def get_channel_input_frequency_max_def
      set_channel_probe_attenuation_def get_channel_probe_attenuation_def
      set_channel_coupling_def get_channel_coupling_def set_channel_offset_def
      get_channel_offset_def set_trigger_source_def get_trigger_source_def
      set_channel_bw_limit_def get_channel_bw_limit_def set_timebase_scale_def
      get_timebase_scale_def set_channel_scale_def get_channel_scale_def cache_defs chan_defs
      do_ask_def Let_def sample_driver_def sample_extern_def sample_channel_def sample_lit_def
      sample_fmt_def sample_reply_def sample_float_def sample_round_def num2_def lower_def
      lower_char_def bool_to_onoff_def str_int_def digit_char_def TimebaseModeMapping_def
      AcquisitionTypeMapping_def AcquisitionAverageCount_def SampleModeMapping_def
      TriggerCouplingMapping_def SlopeMapping_def TriggerTypeMapping_def
      VerticalCouplingMapping_def)


text \<open>
  Claim C2 as the specification states it fails in simulate mode: after the timebase scale
  is set, the getter sends no query (the log stays empty) and returns the old default.
\<close>

theorem set_scale_then_get_simulate_counterexample:
  "io_log (snd (get_timebase_scale sample_extern
                  (snd (set_timebase_scale sample_extern (Num 1) (sample_driver True))))) = [] \<and>
   fst (get_timebase_scale sample_extern
          (snd (set_timebase_scale sample_extern (Num 1) (sample_driver True)))) =
     Inr (Num (1 / 10000))"
  by (simp add: set_timebase_scale_def get_timebase_scale_def cache_defs sample_driver_def)

text \<open>The sample channel is coupled \<^verbatim>\<open>'ac'\<close>: 1 MOhm is stored and nothing is sent.\<close>

theorem impedance_1M_without_command_witness:
  "set_channel_input_impedance sample_extern 0 (Num 1000000) (sample_driver False) =
     (Inr (), snd (set_channel_input_impedance sample_extern 0 (Num 1000000) (sample_driver False))) \<and>
   io_log (snd (set_channel_input_impedance sample_extern 0 (Num 1000000) (sample_driver False))) = [] \<and>
   get_cache_valid ''channel_input_impedance'' (Some 0)
     (snd (set_channel_input_impedance sample_extern 0 (Num 1000000) (sample_driver False)))"
  using impedance_1M_without_command [of "sample_driver False" 0 0 sample_extern "Num 1000000"]
  by (auto simp add: get_index_def chan_def sample_driver_def sample_channel_def sample_extern_def
      sample_lit_def)

subsection \<open>Dependent cache entries\<close>

lemma coupling_invalidates_impedance:
  "fst (set_channel_coupling X index coupling_v s) = Inr () \<longrightarrow>
   (\<exists>i. get_index (map channel_name (channels s)) index = Inr i \<and>
        \<not> get_cache_valid ''channel_input_impedance'' (Some i)
            (snd (set_channel_coupling X index coupling_v s)))"
  by (auto simp add: set_channel_coupling_def cache_defs Let_def split: sum.splits option.splits)

lemma attenuation_invalidates_auto:
  "fst (set_channel_probe_attenuation X index attenuation_v s) = Inr () \<longrightarrow>
   (\<exists>i. get_index (map channel_name (channels s)) index = Inr i \<and>
        \<not> get_cache_valid ''channel_probe_attenuation_auto'' (Some i)
            (snd (set_channel_probe_attenuation X index attenuation_v s)))"
  by (auto simp add: set_channel_probe_attenuation_def cache_defs Let_def split: sum.splits)

lemma auto_invalidates_attenuation:
  "fst (set_channel_probe_attenuation_auto X index flag_v s) = Inr () \<longrightarrow>
   (\<exists>i. get_index (map channel_name (channels s)) index = Inr i \<and>
        \<not> get_cache_valid ''channel_probe_attenuation'' (Some i)
            (snd (set_channel_probe_attenuation_auto X index flag_v s)))"
  by (auto simp add: set_channel_probe_attenuation_auto_def cache_defs Let_def split: sum.splits)

lemma timebase_scale_invalidates_range:
  "\<not> get_cache_valid ''timebase_range'' None (snd (set_timebase_scale X tscale_v s))"
  by (simp add: set_timebase_scale_def cache_defs Let_def)

lemma timebase_scale_invalidates_itself:
  "\<not> get_cache_valid ''timebase_scale'' None (snd (set_timebase_scale X tscale_v s))"
  by (simp add: set_timebase_scale_def cache_defs Let_def)

text \<open>
  Claim C5. For every channel index, a successful set of the channel coupling leaves that
  channel's input impedance entry invalid, a successful set of the probe attenuation
  leaves its probe-attenuation-auto entry invalid, a successful set of
  probe-attenuation-auto leaves its probe attenuation entry invalid, and every write of
  the timebase scale leaves the timebase range entry invalid.
\<close>

theorem dependent_entries_invalidated:
  "(fst (set_channel_coupling X index coupling_v s) = Inr () \<longrightarrow>
      (\<exists>i. get_index (map channel_name (channels s)) index = Inr i \<and>
           \<not> get_cache_valid ''channel_input_impedance'' (Some i)
               (snd (set_channel_coupling X index coupling_v s)))) \<and>
   (fst (set_channel_probe_attenuation X index attenuation_v s) = Inr () \<longrightarrow>
      (\<exists>i. get_index (map channel_name (channels s)) index = Inr i \<and>
           \<not> get_cache_valid ''channel_probe_attenuation_auto'' (Some i)
               (snd (set_channel_probe_attenuation X index attenuation_v s)))) \<and>
   (fst (set_channel_probe_attenuation_auto X index flag_v s) = Inr () \<longrightarrow>
      (\<exists>i. get_index (map channel_name (channels s)) index = Inr i \<and>
           \<not> get_cache_valid ''channel_probe_attenuation'' (Some i)
               (snd (set_channel_probe_attenuation_auto X index flag_v s)))) \<and>
   \<not> get_cache_valid ''timebase_range'' None (snd (set_timebase_scale X tscale_v s))"
  by (intro conjI)
    (rule coupling_invalidates_impedance attenuation_invalidates_auto
       auto_invalidates_attenuation timebase_scale_invalidates_range)+


text \<open>
  On the sample driver the probe attenuation of channel 0 is cached; setting the automatic
  attenuation invalidates it, and the other two setters succeed there as well.
\<close>

theorem dependent_entries_invalidated_witness:
  "get_cache_valid ''channel_probe_attenuation'' (Some 0) (sample_driver False) \<and>
   fst (set_channel_probe_attenuation_auto sample_extern 0 True (sample_driver False)) = Inr () \<and>
   \<not> get_cache_valid ''channel_probe_attenuation'' (Some 0)
       (snd (set_channel_probe_attenuation_auto sample_extern 0 True (sample_driver False))) \<and>
   fst (set_channel_coupling sample_extern 0 ''dc'' (sample_driver False)) = Inr () \<and>
   \<not> get_cache_valid ''channel_input_impedance'' (Some 0)
       (snd (set_channel_coupling sample_extern 0 ''dc'' (sample_driver False))) \<and>
   fst (set_channel_probe_attenuation sample_extern 0 2 (sample_driver False)) = Inr () \<and>
   \<not> get_cache_valid ''channel_probe_attenuation_auto'' (Some 0)
       (snd (set_channel_probe_attenuation sample_extern 0 2 (sample_driver False)))"
proof -
  have a: "fst (set_channel_probe_attenuation_auto sample_extern 0 True (sample_driver False)) = Inr ()"
    by (simp add: set_channel_probe_attenuation_auto_def get_index_def sample_driver_def Let_def)
  have b: "fst (set_channel_coupling sample_extern 0 ''dc'' (sample_driver False)) = Inr ()"
    by (simp add: set_channel_coupling_def get_index_def sample_driver_def Let_def
        VerticalCouplingMapping_def)
  have c: "fst (set_channel_probe_attenuation sample_extern 0 2 (sample_driver False)) = Inr ()"
    by (simp add: set_channel_probe_attenuation_def get_index_def sample_driver_def Let_def)
  have i: "get_index (map channel_name (channels (sample_driver False))) 0 = Inr 0"
    by (simp add: get_index_def sample_driver_def)
  have v: "get_cache_valid ''channel_probe_attenuation'' (Some 0) (sample_driver False)"
    by (simp add: get_cache_valid_def sample_driver_def)
  show ?thesis
    using dependent_entries_invalidated [where X = sample_extern and s = "sample_driver False"
        and index = 0 and flag_v = True and coupling_v = "''dc''" and attenuation_v = 2]
      a b c i v
    by simp
qed

subsection \<open>A value outside the legal domain\<close>

lemma map_of_absent: "k \<notin> fst ` set m \<Longrightarrow> map_of m k = None"
  by (simp add: map_of_eq_None_iff)

lemma set_timebase_mode_rejects:
  "mode_v \<notin> set (map fst TimebaseModeMapping) \<longrightarrow>
      set_timebase_mode X mode_v s = (Inl ValueNotSupportedException, s)"
  by (simp add: set_timebase_mode_def map_of_absent)

lemma set_acquisition_type_rejects:
  "atype_v \<notin> set (map fst AcquisitionTypeMapping) \<longrightarrow>
      set_acquisition_type X atype_v s = (Inl ValueNotSupportedException, s)"
  by (simp add: set_acquisition_type_def map_of_absent)

lemma set_acquisition_sample_mode_rejects:
  "smode_v \<notin> set (map fst SampleModeMapping) \<longrightarrow>
      set_acquisition_sample_mode X smode_v s = (Inl ValueNotSupportedException, s)"
  by (simp add: set_acquisition_sample_mode_def map_of_absent)

lemma set_trigger_coupling_rejects:
  "tcoupling_v \<notin> set (map fst TriggerCouplingMapping) \<longrightarrow>
      set_trigger_coupling X tcoupling_v s = (Inl ValueNotSupportedException, s)"
  by (simp add: set_trigger_coupling_def map_of_absent)

lemma set_trigger_edge_slope_rejects:
  "slope_v \<notin> set (map fst SlopeMapping) \<longrightarrow>
      set_trigger_edge_slope X slope_v s = (Inl ValueNotSupportedException, s)"
  by (simp add: set_trigger_edge_slope_def map_of_absent)

lemma set_trigger_type_rejects:
  "ttype_v \<notin> set (map fst TriggerTypeMapping) \<longrightarrow>
      set_trigger_type X ttype_v s = (Inl ValueNotSupportedException, s)"
  by (simp add: set_trigger_type_def map_of_absent)

lemma set_acquisition_number_of_averages_rejects:
  "averages_v \<notin> set AcquisitionAverageCount \<longrightarrow>
      set_acquisition_number_of_averages X averages_v s = (Inl OutOfRangeException, s)"
  by (simp add: set_acquisition_number_of_averages_def)

lemma set_trigger_source_rejects:
  "lower source_v \<noteq> ''external'' \<and> source_v \<notin> set (map channel_name (channels s)) \<longrightarrow>
      set_trigger_source X source_v s = (Inl UnknownPhysicalNameException, s)"
  by (simp add: set_trigger_source_def)

lemma set_channel_coupling_rejects:
  "coupling_v \<notin> set (map fst VerticalCouplingMapping) \<longrightarrow>
      (\<exists>e. validation_error e \<and> set_channel_coupling X index coupling_v s = (Inl e, s))"
  by (auto simp add: set_channel_coupling_def map_of_absent validation_error_def
      dest: get_index_Inl split: sum.splits option.splits)

lemma set_channel_bw_limit_rejects:
  "lower limit_v \<notin> set [''full'', ''20m'', ''100m''] \<longrightarrow>
      (\<exists>e. validation_error e \<and> set_channel_bw_limit X index (PyStr limit_v) s = (Inl e, s))"
  by (auto simp add: set_channel_bw_limit_def validation_error_def
      dest: get_index_Inl split: sum.splits)

lemma set_channel_input_impedance_rejects:
  "\<not> feq X impedance_v (lit X 1000000 0) \<and>
    \<not> (feq X impedance_v (lit X 50 0) \<and> channel_coupling (chan s (nat index)) = ''dc'') \<longrightarrow>
      (\<exists>e. validation_error e \<and>
           set_channel_input_impedance X index impedance_v s = (Inl e, s))"
  by (auto simp add: set_channel_input_impedance_def validation_error_def
      dest: get_index_Inl get_index_Inr split: sum.splits)

lemma measurement_fetch_waveform_measurement_rejects:
  "function_v \<notin> set (map fst MeasurementFunctionMapping) \<longrightarrow>
      (\<exists>e. validation_error e \<and>
           measurement_fetch_waveform_measurement X index function_v s = (Inl e, s))"
  by (auto simp add: measurement_fetch_waveform_measurement_def map_of_absent
      validation_error_def dest: get_index_Inl split: sum.splits option.splits)

text \<open>
  Claim C9. A value outside the legal domain is rejected with a validation error and the
  driver's state as it was: nothing is sent (the log is part of the state), no cache
  entry and no slot changes. The cases are every setter that checks its value (an
  enumeration value that is no key of the setter's table, a number of averages outside
  the supported counts, a trigger source that is no channel, a bandwidth limit that is
  none of the three words, an input impedance that is neither 1 MOhm nor 50 Ohm on a
  DC-coupled channel) and the measurement fetch with a function that is no key of the
  function table. With a channel index that is out of range the error is the index's.
\<close>

theorem invalid_value_rejected_before_io:
  "(mode_v \<notin> set (map fst TimebaseModeMapping) \<longrightarrow>
      set_timebase_mode X mode_v s = (Inl ValueNotSupportedException, s)) \<and>
   (atype_v \<notin> set (map fst AcquisitionTypeMapping) \<longrightarrow>
      set_acquisition_type X atype_v s = (Inl ValueNotSupportedException, s)) \<and>
   (smode_v \<notin> set (map fst SampleModeMapping) \<longrightarrow>
      set_acquisition_sample_mode X smode_v s = (Inl ValueNotSupportedException, s)) \<and>
   (tcoupling_v \<notin> set (map fst TriggerCouplingMapping) \<longrightarrow>
      set_trigger_coupling X tcoupling_v s = (Inl ValueNotSupportedException, s)) \<and>
   (slope_v \<notin> set (map fst SlopeMapping) \<longrightarrow>
      set_trigger_edge_slope X slope_v s = (Inl ValueNotSupportedException, s)) \<and>
   (ttype_v \<notin> set (map fst TriggerTypeMapping) \<longrightarrow>
      set_trigger_type X ttype_v s = (Inl ValueNotSupportedException, s)) \<and>
   (averages_v \<notin> set AcquisitionAverageCount \<longrightarrow>
      set_acquisition_number_of_averages X averages_v s = (Inl OutOfRangeException, s)) \<and>
   (lower source_v \<noteq> ''external'' \<and> source_v \<notin> set (map channel_name (channels s)) \<longrightarrow>
      set_trigger_source X source_v s = (Inl UnknownPhysicalNameException, s)) \<and>
   (coupling_v \<notin> set (map fst VerticalCouplingMapping) \<longrightarrow>
      (\<exists>e. validation_error e \<and> set_channel_coupling X index coupling_v s = (Inl e, s))) \<and>
   (lower limit_v \<notin> set [''full'', ''20m'', ''100m''] \<longrightarrow>
      (\<exists>e. validation_error e \<and> set_channel_bw_limit X index (PyStr limit_v) s = (Inl e, s))) \<and>
   (\<not> feq X impedance_v (lit X 1000000 0) \<and>
    \<not> (feq X impedance_v (lit X 50 0) \<and> channel_coupling (chan s (nat index)) = ''dc'') \<longrightarrow>
      (\<exists>e. validation_error e \<and>
           set_channel_input_impedance X index impedance_v s = (Inl e, s))) \<and>
   (function_v \<notin> set (map fst MeasurementFunctionMapping) \<longrightarrow>
      (\<exists>e. validation_error e \<and>
           measurement_fetch_waveform_measurement X index function_v s = (Inl e, s)))"
  by (intro conjI)
    (rule set_timebase_mode_rejects
       set_acquisition_type_rejects
       set_acquisition_sample_mode_rejects
       set_trigger_coupling_rejects
       set_trigger_edge_slope_rejects
       set_trigger_type_rejects
       set_acquisition_number_of_averages_rejects
       set_trigger_source_rejects
       set_channel_coupling_rejects
       set_channel_bw_limit_rejects
       set_channel_input_impedance_rejects
       measurement_fetch_waveform_measurement_rejects)+

text \<open>Each rejection on the sample driver, with the instrument attached.\<close>

theorem invalid_value_rejected_before_io_witness:
  "set_timebase_mode sample_extern ''zz'' (sample_driver False) = (Inl ValueNotSupportedException, sample_driver False) \<and>
   set_acquisition_type sample_extern ''zz'' (sample_driver False) = (Inl ValueNotSupportedException, sample_driver False) \<and>
   set_acquisition_sample_mode sample_extern ''zz'' (sample_driver False) = (Inl ValueNotSupportedException, sample_driver False) \<and>
   set_trigger_coupling sample_extern ''zz'' (sample_driver False) = (Inl ValueNotSupportedException, sample_driver False) \<and>
   set_trigger_edge_slope sample_extern ''zz'' (sample_driver False) = (Inl ValueNotSupportedException, sample_driver False) \<and>
   set_trigger_type sample_extern ''zz'' (sample_driver False) = (Inl ValueNotSupportedException, sample_driver False) \<and>
   set_acquisition_number_of_averages sample_extern 3 (sample_driver False) = (Inl OutOfRangeException, sample_driver False) \<and>
   set_trigger_source sample_extern ''CH9'' (sample_driver False) = (Inl UnknownPhysicalNameException, sample_driver False) \<and>
   set_channel_coupling sample_extern 0 ''zz'' (sample_driver False) = (Inl ValueNotSupportedException, sample_driver False) \<and>
   set_channel_bw_limit sample_extern 0 (PyStr ''zz'') (sample_driver False) =
     (Inl ValueNotSupportedException, sample_driver False) \<and>
   set_channel_input_impedance sample_extern 0 (Num 50) (sample_driver False) =
     (Inl InvalidImpedanceSelection, sample_driver False) \<and>
   measurement_fetch_waveform_measurement sample_extern 0 ''zz'' (sample_driver False) =
     (Inl ValueNotSupportedException, sample_driver False)"
proof -
  have c: "channel_coupling (chan (sample_driver False) (nat 0)) = ''ac''"
    by (simp add: chan_def sample_driver_def sample_channel_def)
  have n: "map channel_name (channels (sample_driver False)) = [''CH1'']"
    by (simp add: sample_driver_def sample_channel_def)
  have f: "\<not> feq sample_extern (Num 50) (lit sample_extern 1000000 0)"
    by (simp add: sample_extern_def sample_lit_def)
  show ?thesis
    using invalid_value_rejected_before_io [where X = sample_extern
        and s = "sample_driver False"
        and index = 0
        and mode_v = "''zz''"
        and atype_v = "''zz''"
        and smode_v = "''zz''"
        and tcoupling_v = "''zz''"
        and slope_v = "''zz''"
        and ttype_v = "''zz''"
        and coupling_v = "''zz''"
        and limit_v = "''zz''"
        and function_v = "''zz''"
        and averages_v = 3
        and source_v = "''CH9''"
        and impedance_v = "Num 50"]
      c n f
    by (simp add: set_timebase_mode_def set_acquisition_type_def
        set_acquisition_sample_mode_def set_trigger_coupling_def set_trigger_edge_slope_def
        set_trigger_type_def set_acquisition_number_of_averages_def set_trigger_source_def
        set_channel_coupling_def set_channel_bw_limit_def set_channel_input_impedance_def
        measurement_fetch_waveform_measurement_def TimebaseModeMapping_def
        AcquisitionTypeMapping_def SampleModeMapping_def TriggerCouplingMapping_def
        SlopeMapping_def TriggerTypeMapping_def AcquisitionAverageCount_def
        VerticalCouplingMapping_def MeasurementFunctionMapping_def get_index_def chan_def
        lower_def lower_char_def validation_error_def)
qed

subsection \<open>The measurement slots\<close>

lemma split_on_nonempty: "split_on c s \<noteq> []"
  by (induction s) (auto split: list.splits)

lemma item_split_on_0: "item (split_on c s) 0 = Inr (hd (split_on c s))"
  using split_on_nonempty [of c s] by (simp add: item_def hd_conv_nth)

lemma scan_slots_some:
  "selected_slot \<noteq> None \<or> items \<noteq> [] \<Longrightarrow> fst (scan_slots want items selected_slot) \<noteq> None"
  by (induction want items selected_slot rule: scan_slots.induct) auto

lemma scan_slot_items_some:
  "\<exists>slot must_configure. scan_slots want (slot_items t) None = (Some slot, must_configure)"
proof -
  have "fst (scan_slots want (slot_items t) None) \<noteq> None"
    by (rule scan_slots_some) (simp add: slot_items_def)
  then show ?thesis
    by (cases "scan_slots want (slot_items t) None") auto
qed

lemma scan_after_assign:
  "scan_slots want (slot_items t) None = (Some slot, True) \<Longrightarrow>
   scan_slots want (slot_items (t(slot := Some want))) None = (Some slot, False)"
  by (cases slot) (auto simp add: slot_items_def split: if_splits)

lemma measurement_fetch_unfold:
  assumes "\<not> driver_operation_simulate s"
    and "get_index (map channel_name (channels s)) index = Inr i"
    and "map_of MeasurementFunctionMapping function_v = Some mf"
    and "scan_slots (channel_name (chan s i), mf) (slot_items (measurement_slots s)) None =
           (Some slot, must_configure)"
  shows "measurement_fetch_waveform_measurement X index function_v s =
     (let s6 = (if must_configure then
                  s\<lparr>measurement_slots := (measurement_slots s)(slot := Some (channel_name (chan s i), mf)),
                    io_log := io_log s @ [Write ''MDSP ON'', Write ''MINMAX OFF'',
                                          Write (''DIRM '' @ slot_name slot),
                                          Write (''MSEL '' @ channel_name (chan s i) @ '', '' @ mf),
                                          Sleep]\<rparr>
                else s);
          s7 = s6\<lparr>io_log := io_log s6 @ [Ask (''MSR'' @ slot_name slot @ ''?'')]\<rparr>
      in (case pyfloat X (hd (split_on CHR '','' (reply X (io_log s7)))) of
            None \<Rightarrow> Inl ValueError
          | Some v \<Rightarrow> Inr (if feq X v (lit X 991 35) then nan X else v),
          s7))"
  using assms
  by (simp add: measurement_fetch_waveform_measurement_def Let_def do_write_def do_ask_def sleep_def
      chan_def item_split_on_0 split: option.splits)


text \<open>
  Claim C7. In non-simulate mode, with a valid channel and a supported function, the
  fetch ends with the query \<^verbatim>\<open>MSR<slot>?\<close>; when the first comma-separated field of the
  reply parses to a float equal to 9.91e37 the fetch returns NaN, for every other float
  it returns that float, and when the field is no float it raises ValueError.
\<close>

theorem sentinel_reads_as_nan:
  assumes "\<not> driver_operation_simulate s"
    and "get_index (map channel_name (channels s)) index = Inr i"
    and "map_of MeasurementFunctionMapping function_v = Some mf"
    and "measurement_fetch_waveform_measurement X index function_v s = (res, s')"
  shows "\<exists>slot. io_log s' \<noteq> [] \<and> last (io_log s') = Ask (''MSR'' @ slot_name slot @ ''?'') \<and>
           res = (case pyfloat X (hd (split_on CHR '','' (reply X (io_log s')))) of
                    None \<Rightarrow> Inl ValueError
                  | Some v \<Rightarrow> Inr (if feq X v (lit X 991 35) then nan X else v))"
proof -
  obtain slot must_configure where
    sc: "scan_slots (channel_name (chan s i), mf) (slot_items (measurement_slots s)) None =
           (Some slot, must_configure)"
    using scan_slot_items_some by blast
  from assms(4) show ?thesis
    unfolding measurement_fetch_unfold [OF assms(1) assms(2) assms(3) sc]
    by (intro exI [of _ slot]) (auto simp add: Let_def)
qed

text \<open>
  Claim C6. In non-simulate mode, with a valid channel and a supported function, a
  request selects a slot, and the same request made again right after it selects the same
  slot with nothing to configure: the second call only appends the query \<^verbatim>\<open>MSR<slot>?\<close> to
  the log (no MDSP, MINMAX, DIRM or MSEL command, no settle delay) and leaves the rest of
  the state, the slot table with it, as it was. This holds whether the first call
  returned a value or raised on the reply.
\<close>

theorem same_request_reuses_slot:
  assumes "\<not> driver_operation_simulate s"
    and "get_index (map channel_name (channels s)) index = Inr i"
    and "map_of MeasurementFunctionMapping function_v = Some mf"
    and "measurement_fetch_waveform_measurement X index function_v s = (r1, s1)"
  shows "\<exists>slot.
           fst (scan_slots (channel_name (chan s i), mf) (slot_items (measurement_slots s)) None) =
             Some slot \<and>
           scan_slots (channel_name (chan s1 i), mf) (slot_items (measurement_slots s1)) None =
             (Some slot, False) \<and>
           snd (measurement_fetch_waveform_measurement X index function_v s1) =
             s1\<lparr>io_log := io_log s1 @ [Ask (''MSR'' @ slot_name slot @ ''?'')]\<rparr>"
proof -
  obtain slot must_configure where
    sc: "scan_slots (channel_name (chan s i), mf) (slot_items (measurement_slots s)) None =
           (Some slot, must_configure)"
    using scan_slot_items_some by blast
  note first = assms(4) [unfolded measurement_fetch_unfold [OF assms(1) assms(2) assms(3) sc]]
  have sim1: "\<not> driver_operation_simulate s1"
    using first assms(1) by (auto simp add: Let_def split: if_splits)
  have ch1: "channels s1 = channels s"
    using first by (auto simp add: Let_def split: if_splits)
  have sl1: "measurement_slots s1 =
               (if must_configure
                then (measurement_slots s)(slot := Some (channel_name (chan s i), mf))
                else measurement_slots s)"
    using first by (auto simp add: Let_def split: if_splits)
  have gi1: "get_index (map channel_name (channels s1)) index = Inr i"
    using assms(2) ch1 by simp
  have nm: "chan s1 i = chan s i"
    using ch1 by (simp add: chan_def)
  have sc1: "scan_slots (channel_name (chan s1 i), mf) (slot_items (measurement_slots s1)) None =
               (Some slot, False)"
  proof (cases must_configure)
    case True
    with sc sl1 nm show ?thesis by (simp add: scan_after_assign)
  next
    case False
    with sc sl1 nm show ?thesis by simp
  qed
  show ?thesis
    using sc sc1 measurement_fetch_unfold [OF sim1 gi1 assms(3) sc1, of X]
    by (intro exI [of _ slot]) (simp add: Let_def)
qed


lemma sample_fetch:
  "measurement_fetch_waveform_measurement sample_extern 0 ''frequency'' (sample_driver False) =
     (Inr NaN,
      (sample_driver False)
        \<lparr>measurement_slots := (\<lambda>k. None)(SlotD := Some (''CH1'', ''freq'')),
         io_log := [Write ''MDSP ON'', Write ''MINMAX OFF'', Write ''DIRM D'',
                    Write ''MSEL CH1, freq'', Sleep, Ask ''MSRD?'']\<rparr>)"
  by (simp add: measurement_fetch_waveform_measurement_def get_index_def chan_def
      MeasurementFunctionMapping_def slot_items_def slot_name_def Let_def do_write_def do_ask_def
      sleep_def item_def sample_driver_def sample_channel_def sample_extern_def sample_reply_def
      sample_float_def sample_lit_def)

text \<open>The sample instrument answers \<^verbatim>\<open>MSRD?\<close> with the sentinel: the fetch returns NaN.\<close>

theorem sentinel_reads_as_nan_witness:
  "fst (measurement_fetch_waveform_measurement sample_extern 0 ''frequency'' (sample_driver False)) =
     Inr NaN \<and>
   reply sample_extern
     (io_log (snd (measurement_fetch_waveform_measurement sample_extern 0 ''frequency''
                     (sample_driver False)))) = ''9.91e37,OK'' \<and>
   pyfloat sample_extern ''9.91e37'' = Some (lit sample_extern 991 35)"
proof -
  have 1: "\<not> driver_operation_simulate (sample_driver False)"
    by (simp add: sample_driver_def)
  have 2: "get_index (map channel_name (channels (sample_driver False))) 0 = Inr 0"
    by (simp add: get_index_def sample_driver_def)
  have 3: "map_of MeasurementFunctionMapping ''frequency'' = Some ''freq''"
    by (simp add: MeasurementFunctionMapping_def)
  have 4: "pyfloat sample_extern ''9.91e37'' = Some (lit sample_extern 991 35)"
    by (simp add: sample_extern_def sample_float_def sample_lit_def)
  show ?thesis
    using sentinel_reads_as_nan [OF 1 2 3 sample_fetch] 4
    by (simp add: sample_fetch) (simp add: sample_extern_def sample_reply_def)
qed

text \<open>On the sample driver both calls use slot D, and the second only asks.\<close>

theorem same_request_reuses_slot_witness:
  "fst (scan_slots (''CH1'', ''freq'') (slot_items (measurement_slots (sample_driver False))) None) =
     Some SlotD \<and>
   io_log (snd (measurement_fetch_waveform_measurement sample_extern 0 ''frequency''
                  (snd (measurement_fetch_waveform_measurement sample_extern 0 ''frequency''
                          (sample_driver False))))) =
     [Write ''MDSP ON'', Write ''MINMAX OFF'', Write ''DIRM D'', Write ''MSEL CH1, freq'', Sleep,
      Ask ''MSRD?'', Ask ''MSRD?'']"
proof -
  have 1: "\<not> driver_operation_simulate (sample_driver False)"
    by (simp add: sample_driver_def)
  have 2: "get_index (map channel_name (channels (sample_driver False))) 0 = Inr 0"
    by (simp add: get_index_def sample_driver_def)
  have 3: "map_of MeasurementFunctionMapping ''frequency'' = Some ''freq''"
    by (simp add: MeasurementFunctionMapping_def)
  have 4: "fst (scan_slots (''CH1'', ''freq'') (slot_items (measurement_slots (sample_driver False)))
                  None) = Some SlotD"
    by (simp add: slot_items_def sample_driver_def)
  have 5: "chan (sample_driver False) 0 = sample_channel"
    by (simp add: chan_def sample_driver_def)
  show ?thesis
    using same_request_reuses_slot [OF 1 2 3 sample_fetch] 4 5
    by (simp add: sample_fetch sample_channel_def slot_name_def)
qed

subsection \<open>The waveform decoder\<close>

lemma take_2_drop: "n + 2 \<le> length xs \<Longrightarrow> take 2 (drop n xs) = [xs ! n, xs ! (n + 1)]"
proof -
  assume h: "n + 2 \<le> length xs"
  then have a: "drop n xs = xs ! n # drop (Suc n) xs"
    by (simp add: Cons_nth_drop_Suc)
  from h have b: "drop (Suc n) xs = xs ! Suc n # drop (Suc (Suc n)) xs"
    by (simp add: Cons_nth_drop_Suc)
  show ?thesis
    by (simp add: a b numeral_2_eq_2)
qed

lemma unpack_H_at:
  "2 * k + 2 \<le> length raw \<Longrightarrow> unpack_H (take 2 (drop (k * 2) raw)) = Inr (word_at raw k)"
  by (simp add: take_2_drop mult.commute word_at_def)

lemma decode_loop_map:
  "\<forall>k \<in> set ks. 2 * k + 2 \<le> length raw \<Longrightarrow>
   decode_loop X raw xinc xorg yinc yorg ks data =
     Inr (data @ map (\<lambda>k. (fadd X (fmul X (lit X (int k) 0) xinc) xorg,
                            fadd X (fmul X (lit X (int (word_at raw k)) 0) yinc) yorg)) ks)"
  by (induction ks arbitrary: data) (simp_all add: unpack_H_at Let_def)

lemma get_channel_probe_attenuation_again:
  "get_channel_probe_attenuation X index s = (Inr a, s') \<Longrightarrow>
   get_channel_probe_attenuation X index s' = (Inr a, s')"
  by (auto simp add: get_channel_probe_attenuation_def cache_defs chan_defs do_ask_def Let_def
      split: sum.splits if_splits option.splits prod.splits)


text \<open>
  Claim C3. In non-simulate mode, for a preamble reply split on commas, with \<open>C\<close> the
  configured channel count and \<open>i\<close> the channel's index: when field \<open>2 + 4 * C + 5\<close> holds
  the point count \<open>n\<close>, field \<open>2 + 4 * C + 2\<close> the horizontal increment (which is also the
  time per division), field \<open>2 + 4 * C + 3\<close> the trigger delay, fields \<open>2 + 4 * i + 2\<close> and
  \<open>2 + 4 * i + 3\<close> the vertical increment and origin, the channel's probe attenuation is
  \<open>a\<close> (not 0) and the block has at least \<open>2 * n\<close> bytes, the decoder returns exactly
  \<open>n\<close> pairs in increasing index order; pair \<open>k\<close> is
  \<open>(k * x_increment + x_origin, raw_k * (y_increment / a) + y_origin / a)\<close> with
  \<open>x_origin = - (time_per_division * 10 / 2 + trigger_delay)\<close> and \<open>raw_k\<close> the big-endian
  unsigned 16-bit integer at byte offset \<open>2 * k\<close> of the block. (A point count below 0
  gives no pair.)
\<close>

theorem waveform_decoded:
  assumes "\<not> driver_operation_simulate s"
    and "get_index (map channel_name (channels s)) index = Inr i"
    and "pre = split_on CHR '','' (reply X (io_log (preamble_asked s i)))"
    and "field_value pre (2 + 4 * channel_count s + 5) = Inr ps"
    and "pyint X ps = Some n"
    and "field_float X pre (2 + 4 * channel_count s + 2) ''s'' = Inr xinc"
    and "field_float X pre (2 + 4 * channel_count s + 3) ''s'' = Inr delay"
    and "field_float X pre (2 + 4 * i + 2) ''V'' = Inr yinc"
    and "field_float X pre (2 + 4 * i + 3) ''V'' = Inr yorg"
    and "get_channel_probe_attenuation X (int i) (preamble_asked s i) = (Inr a, s7)"
    and "a \<noteq> 0"
    and "raw = block X (io_log s7 @ [Write ''DTWAVE?'', ReadBlock])"
    and "2 * nat n \<le> length raw"
  shows "measurement_fetch_waveform X index s =
     (Inr (map (\<lambda>k. (fadd X (fmul X (lit X (int k) 0) xinc)
                            (fneg X (fadd X (fdiv X (fmul X xinc (lit X 10 0)) (lit X 2 0)) delay)),
                     fadd X (fmul X (lit X (int (word_at raw k)) 0) (fdiv X yinc (lit X a 0)))
                            (fdiv X yorg (lit X a 0))))
               [0..<nat n]),
      s7\<lparr>io_log := io_log s7 @ [Write ''DTWAVE?'', ReadBlock]\<rparr>)"
proof -
  have p: "read_preamble X (channel_count s) i pre =
             Inr \<lparr>points = n, xincrement = xinc,
                  xorigin = fneg X (fadd X (fdiv X (fmul X xinc (lit X 10 0)) (lit X 2 0)) delay),
                  yincrement = yinc, yorigin = yorg\<rparr>"
    using assms(4-9) by (simp add: read_preamble_def horizontal_divisions_def)
  have again: "get_channel_probe_attenuation X (int i) s7 = (Inr a, s7)"
    using assms(10) by (rule get_channel_probe_attenuation_again)
  have inb: "\<forall>k \<in> set [0..<nat n]. 2 * k + 2 \<le> length raw"
    using assms(13) by auto
  have loop: "decode_loop X raw xinc
                (fneg X (fadd X (fdiv X (fmul X xinc (lit X 10 0)) (lit X 2 0)) delay))
                (fdiv X yinc (lit X a 0)) (fdiv X yorg (lit X a 0)) [0..<nat n] [] =
              Inr (map (\<lambda>k. (fadd X (fmul X (lit X (int k) 0) xinc)
                            (fneg X (fadd X (fdiv X (fmul X xinc (lit X 10 0)) (lit X 2 0)) delay)),
                     fadd X (fmul X (lit X (int (word_at raw k)) 0) (fdiv X yinc (lit X a 0)))
                            (fdiv X yorg (lit X a 0))))
                     [0..<nat n])"
    by (simp add: decode_loop_map [OF inb])
  have s6: "\<And>c. c = ''WAVESRC '' @ channel_name (chan s i) \<Longrightarrow>
            do_ask X ''DTINF?''
              (do_write c
                 (do_write ''DTPOINTS 500K''
                    (do_write ''DTSTART 0'' (do_write ''DTBORD H/L'' (do_write ''DTFORM WORD'' s))))) =
            (reply X (io_log (preamble_asked s i)), preamble_asked s i)"
    by (simp add: do_ask_def do_write_def preamble_asked_def chan_def)
  have ch: "\<And>c t. chan (do_write c t) i = chan t i"
    by (simp add: do_write_def chan_def)
  have cc: "channel_count (preamble_asked s i) = channel_count s"
    by (simp add: preamble_asked_def)
  have fin: "read_ieee_block X (do_write ''DTWAVE?'' s7) =
               (raw, s7\<lparr>io_log := io_log s7 @ [Write ''DTWAVE?'', ReadBlock]\<rparr>)"
    using assms(12) by (simp add: read_ieee_block_def do_write_def)
  show ?thesis
    using assms(1,2,11)
    by (simp add: measurement_fetch_waveform_def Let_def ch s6 cc assms(3) [symmetric] p
        assms(10) again fdiv_int_def fin loop)
qed


lemma sample_fields:
  "split_on CHR '','' sample_preamble =
     [''a'', ''b'', ''c'', ''d'', ''vdiv= 1mV'', ''vofs= 2V'', ''g'', ''h'', ''tdiv= 2us'',
      ''dly= 1s'', ''k'', ''pts= 2'']"
  by (simp add: sample_preamble_def)

text \<open>
  The sample instrument: one channel, two points, 2 us per division, a delay of 1 s,
  1 mV per step from 2 V, a probe attenuation of 10, and the block 00 01 01 02.
\<close>

theorem waveform_decoded_witness:
  "measurement_fetch_waveform sample_extern 0 (sample_driver False) =
     (Inr [(Num (- (100001 / 100000)), Num (2001 / 10000)),
           (Num (- (125001 / 125000)), Num (1129 / 5000))],
      (sample_driver False)
        \<lparr>io_log := [Write ''DTFORM WORD'', Write ''DTBORD H/L'', Write ''DTSTART 0'',
                    Write ''DTPOINTS 500K'', Write ''WAVESRC CH1'', Ask ''DTINF?'',
                    Write ''DTWAVE?'', ReadBlock]\<rparr>)"
proof -
  let ?pre = "split_on CHR '','' sample_preamble"
  have 1: "\<not> driver_operation_simulate (sample_driver False)"
    by (simp add: sample_driver_def)
  have 2: "get_index (map channel_name (channels (sample_driver False))) 0 = Inr 0"
    by (simp add: get_index_def sample_driver_def)
  have 3: "?pre = split_on CHR '','' (reply sample_extern (io_log (preamble_asked (sample_driver False) 0)))"
    by (simp add: preamble_asked_def sample_driver_def sample_extern_def sample_reply_def)
  have cc: "channel_count (sample_driver False) = 1"
    by (simp add: sample_driver_def)
  have 4: "field_value ?pre (2 + 4 * channel_count (sample_driver False) + 5) = Inr ''2''"
    unfolding cc sample_fields by (simp add: field_value_def item_def lstrip_def is_space_def)
  have 5: "pyint sample_extern ''2'' = Some 2"
    by (simp add: sample_extern_def sample_int_def)
  have 6: "field_float sample_extern ?pre (2 + 4 * channel_count (sample_driver False) + 2) ''s'' =
             Inr (Num (1 / 500000))"
    unfolding cc sample_fields
    by (simp add: field_float_def field_value_def item_def lstrip_def is_space_def rstrip_def
        suffixed_string_to_float_def endswith_def scaled_def to_float_def sample_extern_def
        sample_float_def sample_lit_def num2_def)
  have 7: "field_float sample_extern ?pre (2 + 4 * channel_count (sample_driver False) + 3) ''s'' =
             Inr (Num 1)"
    unfolding cc sample_fields
    by (simp add: field_float_def field_value_def item_def lstrip_def is_space_def rstrip_def
        suffixed_string_to_float_def endswith_def lower_def lower_char_def scaled_def to_float_def
        sample_extern_def sample_float_def sample_lit_def num2_def)
  have 8: "field_float sample_extern ?pre (2 + 4 * 0 + 2) ''V'' = Inr (Num (1 / 1000))"
    unfolding sample_fields
    by (simp add: field_float_def field_value_def item_def lstrip_def is_space_def rstrip_def
        suffixed_string_to_float_def endswith_def scaled_def to_float_def sample_extern_def
        sample_float_def sample_lit_def num2_def)
  have 9: "field_float sample_extern ?pre (2 + 4 * 0 + 3) ''V'' = Inr (Num 2)"
    unfolding sample_fields
    by (simp add: field_float_def field_value_def item_def lstrip_def is_space_def rstrip_def
        suffixed_string_to_float_def endswith_def lower_def lower_char_def scaled_def to_float_def
        sample_extern_def sample_float_def sample_lit_def num2_def)
  have 10: "get_channel_probe_attenuation sample_extern (int 0) (preamble_asked (sample_driver False) 0) =
              (Inr 10, preamble_asked (sample_driver False) 0)"
    by (simp add: get_channel_probe_attenuation_def get_index_def get_cache_valid_def chan_def
        preamble_asked_def sample_driver_def sample_channel_def)
  have 11: "(10::int) \<noteq> 0" by simp
  have 12: "[0, 1, 1, 2] =
              block sample_extern
                (io_log (preamble_asked (sample_driver False) 0) @ [Write ''DTWAVE?'', ReadBlock])"
    by (simp add: sample_extern_def sample_block_def)
  have 13: "2 * nat 2 \<le> length [0, 1, 1, 2 :: 8 word]" by simp
  have w: "word_at [0, 1, 1, 2] 0 = 1" "word_at [0, 1, 1, 2] (Suc 0) = 258"
    by (simp_all add: word_at_def)
  have r: "[0..<nat 2] = [0, 1]"
    by (simp add: upt_rec)
  show ?thesis
    unfolding waveform_decoded [OF 1 2 3 4 5 6 7 8 9 10 11 12 13] r
    by (simp add: w sample_extern_def sample_lit_def num2_def preamble_asked_def chan_def
        sample_driver_def sample_channel_def)
qed


subsection \<open>The timebase range\<close>

text \<open>
  What the code keeps: a query of the timebase scale stores the scale and, as the range,
  the scale times the horizontal divisions rounded to six decimal places, and marks both
  entries valid.
\<close>

lemma get_timebase_scale_queried:
  assumes "\<not> driver_operation_simulate s"
    and "\<not> get_cache_valid ''timebase_scale'' None s"
    and "pyfloat X (reply X (io_log s @ [Ask ''TDIV?''])) = Some v"
  shows "get_timebase_scale X s =
           (Inr v,
            s\<lparr>cache_valid := (cache_valid s)((''timebase_scale'', None) := True,
                                                (''timebase_range'', None) := True),
              timebase_range := fround X (fmul X v (lit X 10 0)) 6,
              timebase_scale := v,
              io_log := io_log s @ [Ask ''TDIV?'']\<rparr>)"
  using assms
  by (simp add: get_timebase_scale_def cache_defs do_ask_def Let_def horizontal_divisions_def)

text \<open>
  Claim C4 at a failing input: the instrument reports 1 ns per division. After the query
  both entries are valid, the scale is 1e-9 and the range is 0, not the 1e-8 that ten
  divisions make.
\<close>

theorem timebase_range_rounded_away:
  "get_cache_valid ''timebase_scale'' None (snd (get_timebase_scale sample_extern (sample_driver False))) \<and>
   get_cache_valid ''timebase_range'' None (snd (get_timebase_scale sample_extern (sample_driver False))) \<and>
   timebase_scale (snd (get_timebase_scale sample_extern (sample_driver False))) = Num (1 / 10 ^ 9) \<and>
   timebase_range (snd (get_timebase_scale sample_extern (sample_driver False))) = Num 0 \<and>
   fmul sample_extern
     (timebase_scale (snd (get_timebase_scale sample_extern (sample_driver False))))
     (lit sample_extern horizontal_divisions 0) = Num (1 / 10 ^ 8)"
proof -
  have r: "round ((1::real) / 100) = 0"
    by (simp add: round_def floor_eq_iff)
  have g: "get_timebase_scale sample_extern (sample_driver False) =
             (Inr (Num (1 / 10 ^ 9)),
              (sample_driver False)
                \<lparr>cache_valid := (cache_valid (sample_driver False))
                                  ((''timebase_scale'', None) := True,
                                   (''timebase_range'', None) := True),
                 timebase_range := Num 0,
                 timebase_scale := Num (1 / 10 ^ 9),
                 io_log := [Ask ''TDIV?'']\<rparr>)"
    by (simp add: get_timebase_scale_def cache_defs do_ask_def Let_def horizontal_divisions_def
        sample_driver_def sample_extern_def sample_reply_def sample_float_def sample_lit_def
        sample_round_def num2_def r)
  show ?thesis
    unfolding g
    by (simp add: get_cache_valid_def sample_extern_def sample_lit_def num2_def
        horizontal_divisions_def)
qed

end
